theory Spec2Isabelle
  imports Main "HOL-Library.Word" "HOL-Library.Sublist"
begin

unbundle bit_operations_syntax

section \<open>Platform model\<close>

text \<open>
  The victims are built for a 64-bit little-endian target (the payloads of the
  repository pack the address with \<^verbatim>\<open>struct.pack('<Q', ...)\<close>), without stack
  protector and without position independence.  A pointer is eight bytes and is
  aligned to eight bytes; a \<^verbatim>\<open>char\<close> array has alignment one.
\<close>

type_synonym byte = "8 word"
type_synonym addr = "64 word"

definition PTR_SIZE :: nat where
  "PTR_SIZE = 8"

definition align_up :: "nat \<Rightarrow> nat \<Rightarrow> nat" where
  "align_up n a = ((n + a - 1) div a) * a"

text \<open>A pointer in memory: eight bytes, least significant byte first.\<close>

definition le_bytes :: "addr \<Rightarrow> byte list" where
  "le_bytes w = map (\<lambda>i. ucast (drop_bit (8 * i) w)) [0..<8]"

fun le_word :: "byte list \<Rightarrow> addr" where
  "le_word [] = 0"
| "le_word (b # bs) = ucast b OR push_bit 8 (le_word bs)"

text \<open>
  Memory is addressed by the byte offset from the first byte of the Frame
  object.  Offsets below the size of the Frame are the Frame itself; larger
  offsets are whatever the compiler or the allocator placed behind it, which
  the source does not say.
\<close>

type_synonym memory = "nat \<Rightarrow> byte"

definition store_bytes :: "nat \<Rightarrow> byte list \<Rightarrow> memory \<Rightarrow> memory" where
  "store_bytes off bs m =
     (\<lambda>i. if off \<le> i \<and> i < off + length bs then bs ! (i - off) else m i)"

definition load_bytes :: "nat \<Rightarrow> nat \<Rightarrow> memory \<Rightarrow> byte list" where
  "load_bytes off n m = map m [off..<off + n]"

definition store_ptr :: "nat \<Rightarrow> addr \<Rightarrow> memory \<Rightarrow> memory" where
  "store_ptr off p m = store_bytes off (le_bytes p) m"

definition load_ptr :: "nat \<Rightarrow> memory \<Rightarrow> addr" where
  "load_ptr off m = le_word (load_bytes off PTR_SIZE m)"

text \<open>
  C strings live outside the Frame; a \<^verbatim>\<open>const char *\<close> is the address of one.
  The strings that a program itself has, its arguments and its literals, are an
  association list from the address of the first character to the characters
  before the terminating NUL.  The null pointer points to no string; what
  stands at any other address is a matter of the platform (below).
\<close>

type_synonym strings = "(addr \<times> string) list"

definition deref :: "strings \<Rightarrow> addr \<Rightarrow> string option" where
  "deref strs p = (if p = 0 then None else map_of strs p)"

text \<open>
  \<^verbatim>\<open>argv\<close> is the array of the argument pointers followed by a null pointer, so
  \<^verbatim>\<open>argv[argc]\<close> is null and anything behind it is not part of the array.
\<close>

definition argv_at :: "strings \<Rightarrow> nat \<Rightarrow> addr option" where
  "argv_at argv i =
     (if i < length argv then Some (fst (argv ! i))
      else if i = length argv then Some 0
      else None)"

subsection \<open>Observable events and the machine state\<close>

datatype event =
    Frame_store nat addr    \<comment> \<open>an assignment of a pointer to a Frame field: offset, value\<close>
  | Stdout string           \<comment> \<open>text handed to standard output by one call\<close>
  | Fflush                  \<comment> \<open>standard output flushed\<close>
  | Fread nat nat nat       \<comment> \<open>\<^verbatim>\<open>fread\<close> into the Frame: offset, bytes requested, bytes transferred\<close>
  | Call_slot addr          \<comment> \<open>the callable slot is loaded and called: the value loaded\<close>
  | System string           \<comment> \<open>\<^verbatim>\<open>system\<close> runs a command\<close>
  | Free                    \<comment> \<open>the heap Frame is released\<close>

datatype outcome =
    Exit int                \<comment> \<open>\<^verbatim>\<open>main\<close> returns\<close>
  | Wild_jump addr          \<comment> \<open>the process dies at an address that holds no code\<close>
  | Wild_pointer addr       \<comment> \<open>the process dies reading a string at an address that is not mapped\<close>

text \<open>
  The state of a run: the memory at the Frame, how far behind the start of the
  Frame the run has written so far (\<open>reach\<close>), what is left of standard input,
  and the events so far.
\<close>

record machine =
  mem :: memory
  reach :: nat
  stdin :: "byte list"
  trace :: "event list"

definition emit :: "event \<Rightarrow> 'a machine_scheme \<Rightarrow> 'a machine_scheme" where
  "emit e s = s\<lparr>trace := trace s @ [e]\<rparr>"

definition write_bytes :: "nat \<Rightarrow> byte list \<Rightarrow> 'a machine_scheme \<Rightarrow> 'a machine_scheme" where
  "write_bytes off bs s =
     s\<lparr>mem := store_bytes off bs (mem s), reach := max (reach s) (off + length bs)\<rparr>"

definition assign_ptr :: "nat \<Rightarrow> addr \<Rightarrow> 'a machine_scheme \<Rightarrow> 'a machine_scheme" where
  "assign_ptr off p s = emit (Frame_store off p) (write_bytes off (le_bytes p) s)"

definition printf :: "string \<Rightarrow> 'a machine_scheme \<Rightarrow> 'a machine_scheme" where
  "printf txt s = emit (Stdout txt) s"

definition fflush :: "'a machine_scheme \<Rightarrow> 'a machine_scheme" where
  "fflush s = emit Fflush s"

text \<open>
  \<^verbatim>\<open>fread(ptr, 1, nmemb, stdin)\<close>: every call site passes element size 1.  It
  transfers the next \<open>nmemb\<close> bytes of standard input, or all that is left before
  end of file, to consecutive bytes starting at \<open>ptr\<close>.  It knows nothing of the
  size of the object behind \<open>ptr\<close>, and no caller looks at the count it returns.
\<close>

definition fread :: "nat \<Rightarrow> nat \<Rightarrow> 'a machine_scheme \<Rightarrow> 'a machine_scheme" where
  "fread ptr nmemb s =
     (let bs = take nmemb (stdin s)
      in emit (Fread ptr nmemb (length bs))
           ((write_bytes ptr bs s)\<lparr>stdin := drop nmemb (stdin s)\<rparr>))"

text \<open>\<^verbatim>\<open>%lx\<close> and \<^verbatim>\<open>std::hex\<close>: lower-case hexadecimal without leading zeros.\<close>

definition hex_digit :: "nat \<Rightarrow> char" where
  "hex_digit d = ''0123456789abcdef'' ! d"

function hex :: "nat \<Rightarrow> string" where
  "hex n = (if n < 16 then [hex_digit n] else hex (n div 16) @ [hex_digit (n mod 16)])"
  by pat_completeness auto
termination
  by (relation "measure id") auto

declare hex.simps [simp del]

definition win_banner :: "addr \<Rightarrow> string" where
  "win_banner a = ''win() @ 0x'' @ hex (unat a)"

subsection \<open>What the source leaves open\<close>

text \<open>
  The victims take a function pointer and a string pointer from memory that
  their input can reach, so a run can leave the text of the source.  Where it
  then goes is a matter of the binary and of the process, which a run is given
  as its platform:

  \<^item> \<open>elsewhere a p\<close> is the code at an address \<open>a\<close> that is none of the functions
    the slot of the victim is meant for (another function of the binary, a
    library stub, \<^verbatim>\<open>main\<close> itself, or no code at all), called with the argument
    \<open>p\<close>: the state it leaves, and \<open>None\<close> when it returns to its caller;
  \<^item> \<open>stray p\<close> is the characters up to the next NUL at an address \<open>p\<close> that is
    not the first character of an argument or of the literal of the program,
    and \<open>None\<close> when no memory is mapped there;
  \<^item> \<open>behind m p\<close> is what \<^verbatim>\<open>main\<close> reads back from a pointer variable that it
    keeps on the stack outside of the Frame, once the read has written behind
    the Frame: \<open>m\<close> is the memory from the Frame on, \<open>p\<close> the value the variable
    was given;
  \<^item> \<open>leave k\<close> is how the run goes on once the read has written behind the
    Frame, where \<open>k\<close> is what the source does next: \<open>k\<close> itself when nothing that
    the run still needs was in reach, something else when the read has replaced
    a return address or data of the allocator;
  \<^item> \<open>past_argv\<close> is the pointer stored behind the null pointer that ends
    \<^verbatim>\<open>argv\<close>.
\<close>

record 'm platform =
  elsewhere :: "addr \<Rightarrow> addr \<Rightarrow> 'm \<Rightarrow> 'm \<times> outcome option"
  stray :: "addr \<Rightarrow> string option"
  behind :: "memory \<Rightarrow> addr \<Rightarrow> addr"
  leave :: "('m \<Rightarrow> 'm \<times> outcome) \<Rightarrow> 'm \<Rightarrow> 'm \<times> outcome"
  past_argv :: addr

text \<open>
  Code of the platform takes over from the state \<open>s\<close>.  It cannot undo what has
  happened: it is handed the state with an empty trace, and the trace it leaves
  is what it adds to the events so far.
\<close>

definition continue_with ::
  "('a machine_scheme \<Rightarrow> 'a machine_scheme \<times> 'r) \<Rightarrow> 'a machine_scheme \<Rightarrow> 'a machine_scheme \<times> 'r" where
  "continue_with f s =
     (case f (s\<lparr>trace := []\<rparr>) of (t, r) \<Rightarrow> (t\<lparr>trace := trace s @ trace t\<rparr>, r))"

text \<open>Reading the string at a pointer that is not null.\<close>

definition read_string :: "'m platform \<Rightarrow> strings \<Rightarrow> addr \<Rightarrow> string option" where
  "read_string plat strs p =
     (case deref strs p of
        Some str \<Rightarrow> Some str
      | None \<Rightarrow> if p = 0 then None else stray plat p)"

text \<open>
  \<^verbatim>\<open>return 0\<close> at the end of \<^verbatim>\<open>main\<close>, whose Frame has \<open>sz\<close> bytes: the process
  exits with code 0, unless the read has written behind the Frame.
\<close>

definition main_return ::
  "'a machine_scheme platform \<Rightarrow> nat \<Rightarrow> 'a machine_scheme \<Rightarrow> 'a machine_scheme \<times> outcome" where
  "main_return plat sz s =
     (if sz < reach s then continue_with (leave plat (\<lambda>t. (t, Exit 0))) s else (s, Exit 0))"

text \<open>
  The platform of a binary that has no code and no string anywhere else, and
  that keeps pointer variables, return addresses and the data of the allocator
  out of reach of the read.
\<close>

definition sealed :: "'m platform" where
  "sealed = \<lparr>elsewhere = (\<lambda>a p s. (s, Some (Wild_jump a))), stray = (\<lambda>p. None),
             behind = (\<lambda>m p. p), leave = (\<lambda>k. k), past_argv = 0\<rparr>"

section \<open>simple/step1\_overflow.c\<close>

text \<open>
  \<^verbatim>\<open>struct Frame { char buf[32]; void (*fn)(const char *); };\<close>
\<close>

definition BUF_LEN :: nat where
  "BUF_LEN = 32"

definition READ_LEN :: nat where
  "READ_LEN = 200"

definition offsetof_buf :: nat where
  "offsetof_buf = 0"

definition offsetof_fn :: nat where
  "offsetof_fn = align_up (offsetof_buf + BUF_LEN) PTR_SIZE"

definition sizeof_Frame :: nat where
  "sizeof_Frame = align_up (offsetof_fn + PTR_SIZE) PTR_SIZE"

text \<open>Where the linker put the two functions and the string literal.\<close>

record simple_image =
  safe_at :: addr
  win_at :: addr
  echo_safe_at :: addr

datatype simple_fn = Safe | Win

definition simple_resolve :: "simple_image \<Rightarrow> addr \<Rightarrow> simple_fn option" where
  "simple_resolve img a =
     (if a = safe_at img then Some Safe
      else if a = win_at img then Some Win
      else None)"

text \<open>
  \<^verbatim>\<open>safe\<close> prints the string.  For a null pointer the C library prints \<^verbatim>\<open>(null)\<close>
  in place of a string.
\<close>

definition safe ::
  "'a machine_scheme platform \<Rightarrow> strings \<Rightarrow> addr \<Rightarrow> 'a machine_scheme
     \<Rightarrow> 'a machine_scheme \<times> outcome option" where
  "safe plat strs cmd s =
     (if cmd = 0 then (printf ''safe path: (null)\<newline>'' s, None)
      else case read_string plat strs cmd of
             None \<Rightarrow> (s, Some (Wild_pointer cmd))
           | Some str \<Rightarrow> (printf (''safe path: '' @ str @ ''\<newline>'') s, None))"

text \<open>
  \<^verbatim>\<open>win\<close> hands the string to \<^verbatim>\<open>system\<close>.  What the command does is outside the
  program; \<^verbatim>\<open>system\<close> is taken to return.  \<^verbatim>\<open>system\<close> of a null pointer runs no
  command: it only reports whether there is a shell.
\<close>

definition win ::
  "'a machine_scheme platform \<Rightarrow> strings \<Rightarrow> addr \<Rightarrow> 'a machine_scheme
     \<Rightarrow> 'a machine_scheme \<times> outcome option" where
  "win plat strs cmd s =
     (if cmd = 0 then (s, None)
      else case read_string plat strs cmd of
             None \<Rightarrow> (s, Some (Wild_pointer cmd))
           | Some str \<Rightarrow> (emit (System str) s, None))"

definition simple_strings :: "simple_image \<Rightarrow> strings \<Rightarrow> strings" where
  "simple_strings img argv = (echo_safe_at img, ''echo SAFE'') # argv"

text \<open>
  Lines 26 to 31 of \<^verbatim>\<open>main\<close>: the slot is set, the address of \<^verbatim>\<open>win\<close> is printed
  and flushed, and the input is read into the buffer.
\<close>

definition simple_setup :: "simple_image \<Rightarrow> machine \<Rightarrow> machine" where
  "simple_setup img s0 =
     (let s1 = assign_ptr offsetof_fn (safe_at img) s0;
          s2 = printf (win_banner (win_at img) @ ''\<newline>'') s1;
          s3 = fflush s2
      in fread offsetof_buf READ_LEN s3)"

text \<open>
  The statement \<^verbatim>\<open>frame.fn(cmd)\<close>.  The slot is loaded from the Frame and called,
  whatever it holds.  \<^verbatim>\<open>cmd\<close> is a variable of \<^verbatim>\<open>main\<close> outside of the Frame: a
  read that stayed inside the Frame left it alone.
\<close>

definition simple_call_slot ::
  "machine platform \<Rightarrow> simple_image \<Rightarrow> strings \<Rightarrow> addr \<Rightarrow> machine
     \<Rightarrow> machine \<times> outcome option" where
  "simple_call_slot plat img strs cmd s =
     (let fn = load_ptr offsetof_fn (mem s);
          arg = (if sizeof_Frame < reach s then behind plat (mem s) cmd else cmd);
          s' = emit (Call_slot fn) s
      in case simple_resolve img fn of
           None \<Rightarrow> continue_with (elsewhere plat fn arg) s'
         | Some Safe \<Rightarrow> safe plat strs arg s'
         | Some Win \<Rightarrow> win plat strs arg s')"

text \<open>
  \<^verbatim>\<open>main\<close> from line 26 on, for the value \<open>cmd\<close> that line 24 gave the variable,
  started in the state \<open>s0\<close> whose memory is what the stack holds where \<^verbatim>\<open>frame\<close>
  is allocated.
\<close>

definition simple_main_body ::
  "machine platform \<Rightarrow> simple_image \<Rightarrow> strings \<Rightarrow> addr \<Rightarrow> machine \<Rightarrow> machine \<times> outcome" where
  "simple_main_body plat img strs cmd s0 =
     (case simple_call_slot plat img strs cmd (simple_setup img s0) of
        (s5, Some crash) \<Rightarrow> (s5, crash)
      | (s5, None) \<Rightarrow> main_return plat sizeof_Frame s5)"

text \<open>
  \<^verbatim>\<open>main\<close>.  \<open>junk\<close> is what the stack holds where \<^verbatim>\<open>frame\<close> is allocated: the
  Frame is not initialised.
\<close>

definition simple_main ::
  "machine platform \<Rightarrow> simple_image \<Rightarrow> strings \<Rightarrow> memory \<Rightarrow> byte list \<Rightarrow> machine \<times> outcome" where
  "simple_main plat img argv junk inp =
     (let strs = simple_strings img argv;
          cmd = (if length argv > 1 then fst (argv ! 1) else echo_safe_at img)
      in simple_main_body plat img strs cmd
           \<lparr>mem = junk, reach = 0, stdin = inp, trace = []\<rparr>)"


text \<open>
  The addresses of a process are sound when the two functions are distinct and
  every string has an address of its own, none of them null.
\<close>

definition wf_strings :: "strings \<Rightarrow> bool" where
  "wf_strings strs = (distinct (map fst strs) \<and> 0 \<notin> set (map fst strs))"

definition wf_simple :: "simple_image \<Rightarrow> strings \<Rightarrow> bool" where
  "wf_simple img argv = (safe_at img \<noteq> win_at img \<and> wf_strings (simple_strings img argv))"

section \<open>coroutines/step3\_coroutine\_overflow.cpp\<close>

text \<open>
  \<^verbatim>\<open>struct Frame { char buf[32]; void (*resume)(const char *); const char *cmd; };\<close>
  The buffer is the one of the simple victim; the command pointer lies in the
  Frame, behind the slot.
\<close>

definition offsetof_resume :: nat where
  "offsetof_resume = align_up (offsetof_buf + BUF_LEN) PTR_SIZE"

definition offsetof_cmd :: nat where
  "offsetof_cmd = align_up (offsetof_resume + PTR_SIZE) PTR_SIZE"

definition sizeof_coro_Frame :: nat where
  "sizeof_coro_Frame = align_up (offsetof_cmd + PTR_SIZE) PTR_SIZE"

record coro_image =
  safe_resume_at :: addr
  coro_win_at :: addr
  coro_echo_safe_at :: addr

datatype coro_fn = Safe_resume | Coro_win

definition coro_resolve :: "coro_image \<Rightarrow> addr \<Rightarrow> coro_fn option" where
  "coro_resolve img a =
     (if a = safe_resume_at img then Some Safe_resume
      else if a = coro_win_at img then Some Coro_win
      else None)"

definition coro_strings :: "coro_image \<Rightarrow> strings \<Rightarrow> strings" where
  "coro_strings img argv = (coro_echo_safe_at img, ''echo SAFE'') # argv"

text \<open>\<^verbatim>\<open>std::cout << ... << std::endl\<close>: the text, a newline, and a flush.\<close>

definition cout_endl :: "string \<Rightarrow> 'a machine_scheme \<Rightarrow> 'a machine_scheme" where
  "cout_endl txt s = fflush (printf (txt @ ''\<newline>'') s)"

text \<open>
  \<^verbatim>\<open>safe_resume\<close>.  The insertion of a null \<^verbatim>\<open>char\<close> pointer puts the stream into
  its failed state after \<^verbatim>\<open>safe resume: \<close> has been written; the newline and the
  flush of \<^verbatim>\<open>std::endl\<close> are then not done.
\<close>

definition safe_resume ::
  "'a machine_scheme platform \<Rightarrow> strings \<Rightarrow> addr \<Rightarrow> 'a machine_scheme
     \<Rightarrow> 'a machine_scheme \<times> outcome option" where
  "safe_resume plat strs cmd s =
     (if cmd = 0 then (printf ''safe resume: '' s, None)
      else case read_string plat strs cmd of
             None \<Rightarrow> (s, Some (Wild_pointer cmd))
           | Some str \<Rightarrow> (cout_endl (''safe resume: '' @ str) s, None))"

subsection \<open>The task type\<close>

text \<open>
  There are three coroutines, one for each of \<^verbatim>\<open>c1\<close>, \<^verbatim>\<open>c2\<close>, \<^verbatim>\<open>c3\<close>.  Each is
  suspended at its initial suspend point when it is created
  (\<^verbatim>\<open>initial_suspend\<close> returns \<^verbatim>\<open>suspend_always\<close>), at its \<^verbatim>\<open>co_await\<close> while
  the coroutine it awaits runs, and at its final suspend point after
  \<^verbatim>\<open>co_return\<close>; its promise holds the handle of the coroutine to continue
  with, which is null until an awaiter sets it.
\<close>

datatype coro = C1 | C2 | C3

datatype suspension = Not_created | At_initial | At_await | At_final | Destroyed

record task_machine = machine +
  point :: "coro \<Rightarrow> suspension"
  continuation :: "coro \<Rightarrow> coro option"

text \<open>Calling a coroutine function: \<^verbatim>\<open>get_return_object\<close>, then \<^verbatim>\<open>initial_suspend\<close>.\<close>

definition create :: "coro \<Rightarrow> task_machine \<Rightarrow> task_machine" where
  "create c s = s\<lparr>point := (point s)(c := At_initial),
                  continuation := (continuation s)(c := None)\<rparr>"

text \<open>\<^verbatim>\<open>task::~task\<close> destroys the coroutine the task owns.\<close>

definition destroy :: "coro \<Rightarrow> task_machine \<Rightarrow> task_machine" where
  "destroy c s = s\<lparr>point := (point s)(c := Destroyed)\<rparr>"

text \<open>
  \<^verbatim>\<open>task::awaiter::await_suspend\<close>: the awaited coroutine is told whom to continue
  with, and is the one to resume next.
\<close>

definition awaiter_await_suspend :: "coro \<Rightarrow> coro \<Rightarrow> task_machine \<Rightarrow> coro \<times> task_machine" where
  "awaiter_await_suspend callee cont s =
     (callee, s\<lparr>point := (point s)(cont := At_await),
               continuation := (continuation s)(callee := Some cont)\<rparr>)"

text \<open>
  \<^verbatim>\<open>final_awaiter::await_suspend\<close>: the continuation if there is one, else the
  no-op coroutine (\<open>None\<close>), whose resumption returns to the caller of
  \<^verbatim>\<open>resume\<close>.
\<close>

definition final_awaiter_await_suspend :: "coro \<Rightarrow> task_machine \<Rightarrow> coro option \<times> task_machine" where
  "final_awaiter_await_suspend h s =
     (continuation s h, s\<lparr>point := (point s)(h := At_final)\<rparr>)"

text \<open>The body of \<^verbatim>\<open>c3\<close> between its initial and its final suspend point.\<close>

definition c3_body :: "task_machine \<Rightarrow> task_machine" where
  "c3_body s = fread offsetof_buf READ_LEN (cout_endl ''c3(): enter input'' s)"

text \<open>
  \<^verbatim>\<open>coroutine_handle::resume\<close>, with the symmetric transfer of the two
  \<^verbatim>\<open>await_suspend\<close> functions: it returns when a coroutine suspends without
  naming a successor.  \<^verbatim>\<open>c1\<close> awaits \<^verbatim>\<open>c2\<close>, \<^verbatim>\<open>c2\<close> awaits \<^verbatim>\<open>c3\<close>; the task a
  coroutine awaited is a temporary, destroyed when the awaiting coroutine
  goes on.  Resuming a coroutine that is not suspended at its initial suspend
  point or at a \<^verbatim>\<open>co_await\<close> is undefined; it has no result here.
\<close>

partial_function (option) resume :: "coro \<Rightarrow> task_machine \<Rightarrow> task_machine option" where
  "resume c s =
     (case (c, point s c) of
        (C1, At_initial) \<Rightarrow>
          (case awaiter_await_suspend C2 C1 (create C2 s) of (next, s') \<Rightarrow> resume next s')
      | (C2, At_initial) \<Rightarrow>
          (case awaiter_await_suspend C3 C2 (create C3 s) of (next, s') \<Rightarrow> resume next s')
      | (C3, At_initial) \<Rightarrow>
          (case final_awaiter_await_suspend C3 (c3_body s) of
             (Some next, s') \<Rightarrow> resume next s'
           | (None, s') \<Rightarrow> Some s')
      | (C1, At_await) \<Rightarrow>
          (case final_awaiter_await_suspend C1 (destroy C2 s) of
             (Some next, s') \<Rightarrow> resume next s'
           | (None, s') \<Rightarrow> Some s')
      | (C2, At_await) \<Rightarrow>
          (case final_awaiter_await_suspend C2 (destroy C3 s) of
             (Some next, s') \<Rightarrow> resume next s'
           | (None, s') \<Rightarrow> Some s')
      | _ \<Rightarrow> None)"

declare resume.simps [code]

text \<open>\<^verbatim>\<open>task::start\<close>.\<close>

definition start :: "coro \<Rightarrow> task_machine \<Rightarrow> task_machine option" where
  "start h s = resume h s"

text \<open>
  Lines 116 to 124 of \<^verbatim>\<open>main\<close>: the two pointers of the Frame are set, the
  address of \<^verbatim>\<open>win\<close> is printed, the chain is created and started.  The result is
  \<open>None\<close> when \<^verbatim>\<open>start\<close> does not return.  \<^verbatim>\<open>malloc\<close> is taken to succeed (its
  result is not checked).
\<close>

definition coro_setup :: "coro_image \<Rightarrow> strings \<Rightarrow> task_machine \<Rightarrow> task_machine option" where
  "coro_setup img argv s0 =
     (let s1 = assign_ptr offsetof_resume (safe_resume_at img) s0;
          s2 = assign_ptr offsetof_cmd
                 (if length argv > 1 then fst (argv ! 1) else coro_echo_safe_at img) s1;
          s3 = cout_endl (win_banner (coro_win_at img)) s2;
          s4 = create C1 s3
      in start C1 s4)"

text \<open>
  The statement \<^verbatim>\<open>frame->resume(frame->cmd)\<close>: the slot and the command pointer
  are both read from the Frame, and the slot is called, whatever it holds.
\<close>

definition coro_call_slot ::
  "task_machine platform \<Rightarrow> coro_image \<Rightarrow> strings \<Rightarrow> task_machine
     \<Rightarrow> task_machine \<times> outcome option" where
  "coro_call_slot plat img strs s =
     (let fn = load_ptr offsetof_resume (mem s);
          cmd = load_ptr offsetof_cmd (mem s);
          s' = emit (Call_slot fn) s
      in case coro_resolve img fn of
           None \<Rightarrow> continue_with (elsewhere plat fn cmd) s'
         | Some Safe_resume \<Rightarrow> safe_resume plat strs cmd s'
         | Some Coro_win \<Rightarrow> win plat strs cmd s')"

text \<open>
  Lines 126 to 128 of \<^verbatim>\<open>main\<close>: the slot is called, the Frame is released, and
  the task \<^verbatim>\<open>chain\<close> is destroyed when \<^verbatim>\<open>main\<close> returns 0.
\<close>

definition coro_call_and_release ::
  "task_machine platform \<Rightarrow> coro_image \<Rightarrow> strings \<Rightarrow> task_machine
     \<Rightarrow> task_machine \<times> outcome" where
  "coro_call_and_release plat img strs s =
     (case coro_call_slot plat img strs s of
        (s6, Some crash) \<Rightarrow> (s6, crash)
      | (s6, None) \<Rightarrow> (destroy C1 (emit Free s6), Exit 0))"

text \<open>
  \<^verbatim>\<open>main\<close>.  \<open>junk\<close> is what \<^verbatim>\<open>malloc\<close> hands out.  The Frame is the 48 bytes that
  \<^verbatim>\<open>malloc\<close> was asked for; behind them the heap holds the data of the allocator
  and the frames of the coroutines, which are allocated after the Frame.  A
  read that went further has written to those, and how the run goes on from
  the read is then up to the platform.
\<close>

definition coro_main ::
  "task_machine platform \<Rightarrow> coro_image \<Rightarrow> strings \<Rightarrow> memory \<Rightarrow> byte list
     \<Rightarrow> (task_machine \<times> outcome) option" where
  "coro_main plat img argv junk inp =
     (let strs = coro_strings img argv;
          s0 = \<lparr>mem = junk, reach = 0, stdin = inp, trace = [],
                point = (\<lambda>c. Not_created), continuation = (\<lambda>c. None)\<rparr>
      in case coro_setup img argv s0 of
           None \<Rightarrow> None
         | Some s5 \<Rightarrow>
             Some (if sizeof_coro_Frame < reach s5
                   then continue_with (leave plat (coro_call_and_release plat img strs)) s5
                   else coro_call_and_release plat img strs s5))"

definition wf_coro :: "coro_image \<Rightarrow> strings \<Rightarrow> bool" where
  "wf_coro img argv =
     (safe_resume_at img \<noteq> coro_win_at img \<and> wf_strings (coro_strings img argv))"

section \<open>The step-0 password variant\<close>

text \<open>
  \<^verbatim>\<open>struct Frame { char buf[32]; void (*auth)(const char *); };\<close>
  Here \<^verbatim>\<open>win\<close> takes no argument, and the argument of the slot is the password
  to check.
\<close>

definition offsetof_auth :: nat where
  "offsetof_auth = align_up (offsetof_buf + BUF_LEN) PTR_SIZE"

definition sizeof_step0_Frame :: nat where
  "sizeof_step0_Frame = align_up (offsetof_auth + PTR_SIZE) PTR_SIZE"

record step0_image =
  check_password_at :: addr
  step0_win_at :: addr

datatype step0_fn = Check_password | Step0_win

definition step0_resolve :: "step0_image \<Rightarrow> addr \<Rightarrow> step0_fn option" where
  "step0_resolve img a =
     (if a = check_password_at img then Some Check_password
      else if a = step0_win_at img then Some Step0_win
      else None)"

definition step0_win :: "'a machine_scheme \<Rightarrow> 'a machine_scheme" where
  "step0_win s = printf ''AUTHENTICATED...\<newline>'' s"

text \<open>
  \<^verbatim>\<open>strcmp\<close> compares as unsigned characters up to the first difference or the
  end of both strings; a NUL character ends a string wherever it stands.
\<close>

fun strcmp :: "string \<Rightarrow> string \<Rightarrow> int" where
  "strcmp [] [] = 0"
| "strcmp [] (y # ys) = 0 - of_char y"
| "strcmp (x # xs) [] = of_char x"
| "strcmp (x # xs) (y # ys) =
     (if x \<noteq> y then of_char x - of_char y
      else if x = CHR 0x00 then 0
      else strcmp xs ys)"

definition c_string :: "string \<Rightarrow> string" where
  "c_string cs = takeWhile (\<lambda>c. c \<noteq> CHR 0x00) cs"

definition check_password_body :: "string \<Rightarrow> 'a machine_scheme \<Rightarrow> 'a machine_scheme" where
  "check_password_body pass s =
     (if strcmp pass ''mypassword'' = 0 then step0_win s
      else printf ''WRONG PASSWORD\<newline>'' s)"

text \<open>\<^verbatim>\<open>check_password\<close>; \<^verbatim>\<open>strcmp\<close> reads through the pointer, null or not.\<close>

definition check_password ::
  "'a machine_scheme platform \<Rightarrow> strings \<Rightarrow> addr \<Rightarrow> 'a machine_scheme
     \<Rightarrow> 'a machine_scheme \<times> outcome option" where
  "check_password plat strs pass s =
     (case read_string plat strs pass of
        None \<Rightarrow> (s, Some (Wild_pointer pass))
      | Some str \<Rightarrow> (check_password_body str s, None))"

text \<open>
  Lines 159 to 163 of \<^verbatim>\<open>main\<close>: the slot is set, the address of \<^verbatim>\<open>win\<close> is handed to
  standard output, and the input is read into the buffer.  Standard output is
  not flushed before the read.
\<close>

definition step0_setup :: "step0_image \<Rightarrow> machine \<Rightarrow> machine" where
  "step0_setup img s0 =
     (let s1 = assign_ptr offsetof_auth (check_password_at img) s0;
          s2 = printf (win_banner (step0_win_at img) @ ''\<newline>'') s1
      in fread offsetof_buf READ_LEN s2)"

text \<open>
  The statement \<^verbatim>\<open>frame.auth(argv[1])\<close>.  \<^verbatim>\<open>argv[1]\<close> is read without a look at
  \<^verbatim>\<open>argc\<close>; \<^verbatim>\<open>argv\<close> lies on the stack outside of the Frame.  The slot is called,
  whatever it holds.  Without enforcement a call of \<^verbatim>\<open>win\<close> through the slot
  goes through, although \<^verbatim>\<open>win\<close> has another type; it ignores the argument.
\<close>

definition step0_call_slot ::
  "machine platform \<Rightarrow> step0_image \<Rightarrow> strings \<Rightarrow> machine \<Rightarrow> machine \<times> outcome option" where
  "step0_call_slot plat img argv s =
     (let fn = load_ptr offsetof_auth (mem s);
          argv1 = (case argv_at argv 1 of Some p \<Rightarrow> p | None \<Rightarrow> past_argv plat);
          arg = (if sizeof_step0_Frame < reach s then behind plat (mem s) argv1 else argv1);
          s' = emit (Call_slot fn) s
      in case step0_resolve img fn of
           None \<Rightarrow> continue_with (elsewhere plat fn arg) s'
         | Some Check_password \<Rightarrow> check_password plat argv arg s'
         | Some Step0_win \<Rightarrow> (step0_win s', None))"

text \<open>\<^verbatim>\<open>main\<close>.\<close>

definition step0_main ::
  "machine platform \<Rightarrow> step0_image \<Rightarrow> strings \<Rightarrow> memory \<Rightarrow> byte list \<Rightarrow> machine \<times> outcome" where
  "step0_main plat img argv junk inp =
     (case step0_call_slot plat img argv
             (step0_setup img \<lparr>mem = junk, reach = 0, stdin = inp, trace = []\<rparr>) of
        (s4, Some crash) \<Rightarrow> (s4, crash)
      | (s4, None) \<Rightarrow> main_return plat sizeof_step0_Frame s4)"

definition wf_step0 :: "step0_image \<Rightarrow> strings \<Rightarrow> bool" where
  "wf_step0 img argv = (check_password_at img \<noteq> step0_win_at img \<and> wf_strings argv)"

section \<open>Reading a trace\<close>

fun is_fread :: "event \<Rightarrow> bool" where
  "is_fread (Fread ptr n k) = True"
| "is_fread e = False"


text \<open>The events that write to the Frame or read the slot.\<close>

fun touches_frame :: "event \<Rightarrow> bool" where
  "touches_frame (Frame_store off a) = True"
| "touches_frame (Fread ptr n k) = True"
| "touches_frame (Call_slot a) = True"
| "touches_frame e = False"

fun stdout_text :: "event list \<Rightarrow> string" where
  "stdout_text [] = []"
| "stdout_text (Stdout txt # es) = txt @ stdout_text es"
| "stdout_text (e # es) = stdout_text es"

definition before_read :: "event list \<Rightarrow> event list" where
  "before_read es = takeWhile (\<lambda>e. \<not> is_fread e) es"

definition from_read :: "event list \<Rightarrow> event list" where
  "from_read es = dropWhile (\<lambda>e. \<not> is_fread e) es"

text \<open>
  Standard output is a buffered stream: text handed to it is written to the
  file descriptor when the stream is flushed, when the process exits, and, if
  the descriptor is a terminal (the stream is then line buffered), when a
  newline is handed over, up to that newline.  \<open>written tty buf es\<close> is what the
  calls \<open>es\<close> have written to the descriptor of a stream that held \<open>buf\<close> before
  them; \<open>stdout_text\<close> above is what they have handed to the stream.  None of
  the victims hands over enough text before its read to fill the buffer.
\<close>

definition complete_lines :: "string \<Rightarrow> string" where
  "complete_lines txt = rev (dropWhile (\<lambda>c. c \<noteq> CHR ''\<newline>'') (rev txt))"

definition partial_line :: "string \<Rightarrow> string" where
  "partial_line txt = rev (takeWhile (\<lambda>c. c \<noteq> CHR ''\<newline>'') (rev txt))"

fun written :: "bool \<Rightarrow> string \<Rightarrow> event list \<Rightarrow> string" where
  "written tty buf [] = []"
| "written tty buf (Stdout txt # es) =
     (if tty then complete_lines (buf @ txt) @ written tty (partial_line (buf @ txt)) es
      else written tty (buf @ txt) es)"
| "written tty buf (Fflush # es) = buf @ written tty [] es"
| "written tty buf (e # es) = written tty buf es"

text \<open>The lines of a text: each ends at a newline, the last one may lack it.\<close>

fun lines_from :: "string \<Rightarrow> string \<Rightarrow> string list" where
  "lines_from cur [] = (if cur = [] then [] else [cur])"
| "lines_from cur (c # cs) =
     (if c = CHR ''\<newline>'' then cur # lines_from [] cs else lines_from (cur @ [c]) cs)"

definition lines_of :: "string \<Rightarrow> string list" where
  "lines_of txt = lines_from [] txt"

text \<open>
  Reading a hexadecimal numeral, as a script that picks the address up from
  the output does.
\<close>

definition digit_value :: "char \<Rightarrow> nat" where
  "digit_value c = length (takeWhile (\<lambda>d. d \<noteq> c) ''0123456789abcdef'')"

definition hex_value :: "string \<Rightarrow> nat" where
  "hex_value ds = foldl (\<lambda>n c. 16 * n + digit_value c) 0 ds"

text \<open>
  A line shows an address when what stands behind its first \<^verbatim>\<open>0x\<close> is a
  hexadecimal numeral of that value.
\<close>

fun after_0x :: "string \<Rightarrow> string option" where
  "after_0x (c # d # cs) = (if c = CHR ''0'' \<and> d = CHR ''x'' then Some cs else after_0x (d # cs))"
| "after_0x cs = None"

definition shows_address :: "addr \<Rightarrow> string \<Rightarrow> bool" where
  "shows_address a line =
     (case after_0x line of
        None \<Rightarrow> False
      | Some ds \<Rightarrow> ds \<noteq> [] \<and> set ds \<subseteq> set ''0123456789abcdef'' \<and> hex_value ds = unat a)"

section \<open>sanitizer/rtsan: functions marked for the real-time checker\<close>

text \<open>
  \<^verbatim>\<open>[[clang::nonblocking]]\<close> declares a function a bounded-latency context,
  \<^verbatim>\<open>[[clang::blocking]]\<close> declares that it may block.  The attributes are read by
  the checker only.
\<close>

datatype fn_attr = Nonblocking | Blocking | Unmarked

datatype rt_function =
    Violation | Safe_realtime_fn
  | Rt_timer_callback_safe | Rt_timer_callback_unsafe | SimpleDTE_command

fun attribute_of :: "rt_function \<Rightarrow> fn_attr" where
  "attribute_of Violation = Nonblocking"
| "attribute_of Safe_realtime_fn = Nonblocking"
| "attribute_of Rt_timer_callback_safe = Nonblocking"
| "attribute_of Rt_timer_callback_unsafe = Nonblocking"
| "attribute_of SimpleDTE_command = Blocking"

text \<open>What a function does that a real-time checker or another thread can see.\<close>

datatype global = G_cached_rssi | G_cached_ber

datatype memory_order = Relaxed | Seq_cst

datatype rt_effect =
    Malloc nat                          \<comment> \<open>bytes asked for\<close>
  | Free_heap
  | Mutex_lock
  | Mutex_unlock
  | Atomic_load global memory_order
  | Atomic_store global memory_order

fun unbounded_latency :: "rt_effect \<Rightarrow> bool" where
  "unbounded_latency (Malloc n) = True"
| "unbounded_latency Free_heap = True"
| "unbounded_latency Mutex_lock = True"
| "unbounded_latency Mutex_unlock = True"
| "unbounded_latency (Atomic_load g order) = False"
| "unbounded_latency (Atomic_store g order) = False"

fun is_malloc :: "rt_effect \<Rightarrow> bool" where
  "is_malloc (Malloc n) = True"
| "is_malloc e = False"

fun is_mutex_lock :: "rt_effect \<Rightarrow> bool" where
  "is_mutex_lock Mutex_lock = True"
| "is_mutex_lock e = False"

fun is_atomic_store :: "rt_effect \<Rightarrow> bool" where
  "is_atomic_store (Atomic_store g order) = True"
| "is_atomic_store e = False"

subsection \<open>real\_time.cpp\<close>

text \<open>
  \<^verbatim>\<open>std::vector<float>\<close>: the elements (a \<^verbatim>\<open>float\<close> is its four bytes; only
  value-initialised elements, all bits zero, occur) and the number of elements
  the storage it owns has room for.  A vector that owns no storage has
  capacity 0.  \<^verbatim>\<open>resize\<close> gets new storage from the allocator when the new size
  exceeds the capacity, growing to the old size plus the larger of the old size
  and the number of elements added; the destructor gives the storage back.
\<close>

type_synonym float = "32 word"

definition sizeof_float :: nat where
  "sizeof_float = 4"

record vector =
  elems :: "float list"
  capacity :: nat

definition vector_empty :: vector where
  "vector_empty = \<lparr>elems = [], capacity = 0\<rparr>"

definition vector_resize :: "nat \<Rightarrow> vector \<Rightarrow> rt_effect list \<times> vector" where
  "vector_resize n v =
     (let sz = length (elems v)
      in if n \<le> sz then ([], v\<lparr>elems := take n (elems v)\<rparr>)
         else if n \<le> capacity v then ([], v\<lparr>elems := elems v @ replicate (n - sz) 0\<rparr>)
         else let cap = sz + max sz (n - sz)
              in (Malloc (cap * sizeof_float) # (if capacity v = 0 then [] else [Free_heap]),
                  \<lparr>elems = elems v @ replicate (n - sz) 0, capacity = cap\<rparr>))"

definition vector_dtor :: "vector \<Rightarrow> rt_effect list" where
  "vector_dtor v = (if capacity v = 0 then [] else [Free_heap])"

definition violation :: "rt_effect list" where
  "violation =
     (let v = vector_empty;
          (es, v') = vector_resize 100 v
      in es @ vector_dtor v')"

text \<open>\<^verbatim>\<open>float stack_buffer[100]\<close> lives in the stack frame of the function.\<close>

definition safe_realtime_fn :: "rt_effect list" where
  "safe_realtime_fn = []"

definition real_time_main :: "rt_effect list \<times> int" where
  "real_time_main = (violation, 0)"

subsection \<open>esp\_modem\_rtsan.cpp: the shared state and the safe callback\<close>

text \<open>
  The state of the demo that outlives a call: the two cached values
  (\<^verbatim>\<open>std::atomic<int>\<close>), whether \<^verbatim>\<open>g_dte\<close> points to the DTE of \<^verbatim>\<open>main\<close>, and how
  often the recursive mutex \<^verbatim>\<open>internal_lock_\<close> of that DTE is held.
\<close>

type_synonym c_int = "32 word"

record modem_state =
  g_cached_rssi :: c_int
  g_cached_ber :: c_int
  g_dte :: bool
  internal_lock :: nat

definition atomic_load :: "global \<Rightarrow> memory_order \<Rightarrow> modem_state \<Rightarrow> c_int \<times> rt_effect list" where
  "atomic_load g order s =
     ((case g of G_cached_rssi \<Rightarrow> g_cached_rssi s | G_cached_ber \<Rightarrow> g_cached_ber s),
      [Atomic_load g order])"

definition atomic_store :: "global \<Rightarrow> c_int \<Rightarrow> modem_state \<Rightarrow> rt_effect list \<times> modem_state" where
  "atomic_store g v s =
     ([Atomic_store g Seq_cst],
      (case g of G_cached_rssi \<Rightarrow> s\<lparr>g_cached_rssi := v\<rparr> | G_cached_ber \<Rightarrow> s\<lparr>g_cached_ber := v\<rparr>))"

text \<open>
  \<^verbatim>\<open>rt_timer_callback_safe\<close> loads both values into locals and drops them.  The
  result is what it did and the state it leaves.
\<close>

definition rt_timer_callback_safe :: "modem_state \<Rightarrow> rt_effect list \<times> modem_state" where
  "rt_timer_callback_safe s =
     (let (rssi, e1) = atomic_load G_cached_rssi Relaxed s;
          (ber, e2) = atomic_load G_cached_ber Relaxed s
      in (e1 @ e2, s))"

section \<open>Pointers in memory\<close>

lemma upt8: "[0..<8] = [0, 1, 2, 3, 4, 5, 6, 7]"
  by (simp add: upt_rec)

lemma byte_split:
  "ucast (ucast (drop_bit k x) :: byte) OR push_bit 8 (drop_bit (8 + k) x) = drop_bit k (x::addr)"
proof (rule bit_word_eqI)
  fix n :: nat
  assume "n < LENGTH(64)"
  then have n: "n < 64" by simp
  show "bit (ucast (ucast (drop_bit k x) :: byte) OR push_bit 8 (drop_bit (8 + k) x)) n
      = bit (drop_bit k x) n"
  proof (cases "n < 8")
    case True
    then show ?thesis by (simp add: bit_simps)
  next
    case False
    then have "8 + k + (n - 8) = k + n" by simp
    with False n show ?thesis by (simp add: bit_simps)
  qed
qed

lemma drop_bit_64: "drop_bit 64 (x::addr) = 0"
  by (rule bit_word_eqI) (simp add: bit_simps)

lemma le_word_le_bytes: "le_word (le_bytes w) = w"
proof -
  have "le_word (le_bytes w) = drop_bit 0 w"
    unfolding le_bytes_def upt8
    using byte_split [of 56 w] byte_split [of 48 w] byte_split [of 40 w] byte_split [of 32 w]
      byte_split [of 24 w] byte_split [of 16 w] byte_split [of 8 w] byte_split [of 0 w]
    by (simp add: drop_bit_64)
  then show ?thesis by simp
qed

lemma length_le_bytes: "length (le_bytes w) = 8"
  by (simp add: le_bytes_def)

lemma load_bytes_store_same:
  "load_bytes off (length bs) (store_bytes off bs m) = bs"
  by (rule nth_equalityI) (simp_all add: load_bytes_def store_bytes_def)

lemma load_bytes_store_apart:
  "off + n \<le> off' \<or> off' + length bs \<le> off \<Longrightarrow>
   load_bytes off n (store_bytes off' bs m) = load_bytes off n m"
  by (rule nth_equalityI) (auto simp add: load_bytes_def store_bytes_def)

lemma load_store_ptr_same: "load_ptr off (store_ptr off p m) = p"
  using load_bytes_store_same [of off "le_bytes p" m]
  by (simp add: load_ptr_def store_ptr_def PTR_SIZE_def length_le_bytes le_word_le_bytes)

lemma load_ptr_store_apart:
  "off + 8 \<le> off' \<or> off' + length bs \<le> off \<Longrightarrow>
   load_ptr off (store_bytes off' bs m) = load_ptr off m"
  by (simp add: load_ptr_def PTR_SIZE_def load_bytes_store_apart)

lemma load_bytes_store_append:
  "load_bytes (off + length as) (length bs) (store_bytes off (as @ bs) m) = bs"
  by (rule nth_equalityI) (simp_all add: load_bytes_def store_bytes_def nth_append)

lemma simple_layout: "offsetof_fn = 32" "sizeof_Frame = 40"
  by (simp_all add: offsetof_fn_def sizeof_Frame_def offsetof_buf_def BUF_LEN_def
      PTR_SIZE_def align_up_def)

lemma payload_slot:
  "load_ptr 32 (store_bytes 0 (replicate 32 b @ le_bytes p) m) = p"
  using load_bytes_store_append [of 0 "replicate 32 b" "le_bytes p" m]
  by (simp add: load_ptr_def PTR_SIZE_def length_le_bytes le_word_le_bytes)

section \<open>Strings and function addresses of a sound process\<close>

lemma map_of_nth:
  "distinct (map fst xs) \<Longrightarrow> i < length xs \<Longrightarrow> map_of xs (fst (xs ! i)) = Some (snd (xs ! i))"
  by (simp add: map_of_eq_Some_iff)

lemma deref_nth:
  "wf_strings strs \<Longrightarrow> i < length strs \<Longrightarrow> deref strs (fst (strs ! i)) = Some (snd (strs ! i))"
  unfolding wf_strings_def deref_def
  by (auto simp add: map_of_nth)

lemma deref_simple_argv1:
  "wf_simple img argv \<Longrightarrow> 1 < length argv \<Longrightarrow>
   deref (simple_strings img argv) (fst (argv ! 1)) = Some (snd (argv ! 1))"
  using deref_nth [of "simple_strings img argv" 2]
  by (simp add: wf_simple_def simple_strings_def)

lemma deref_simple_literal:
  "wf_simple img argv \<Longrightarrow> deref (simple_strings img argv) (echo_safe_at img) = Some ''echo SAFE''"
  using deref_nth [of "simple_strings img argv" 0]
  by (simp add: wf_simple_def simple_strings_def)

lemma simple_resolve_win: "wf_simple img argv \<Longrightarrow> simple_resolve img (win_at img) = Some Win"
  by (auto simp add: wf_simple_def simple_resolve_def)

lemma simple_resolve_safe: "simple_resolve img (safe_at img) = Some Safe"
  by (simp add: simple_resolve_def)

lemmas machine_ops = assign_ptr_def printf_def fflush_def fread_def emit_def write_bytes_def
  cout_endl_def

lemmas task_ops = create_def destroy_def awaiter_await_suspend_def final_awaiter_await_suspend_def

lemma coro_layout: "offsetof_resume = 32" "offsetof_cmd = 40" "sizeof_coro_Frame = 48"
  by (simp_all add: offsetof_resume_def offsetof_cmd_def sizeof_coro_Frame_def offsetof_buf_def
      BUF_LEN_def PTR_SIZE_def align_up_def)

lemma step0_layout: "offsetof_auth = 32" "sizeof_step0_Frame = 40"
  by (simp_all add: offsetof_auth_def sizeof_step0_Frame_def offsetof_buf_def BUF_LEN_def
      PTR_SIZE_def align_up_def)

section \<open>Code of the platform and strings\<close>

lemma continue_with_trace:
  "trace (fst (continue_with f s)) = trace s @ trace (fst (f (s\<lparr>trace := []\<rparr>)))"
  by (simp add: continue_with_def split: prod.split)

lemma continue_with_prefix: "prefix (trace s) (trace (fst (continue_with f s)))"
  by (simp add: continue_with_trace)

lemma deref_not_null: "deref strs p = Some str \<Longrightarrow> p \<noteq> 0"
  by (auto simp add: deref_def)

lemma read_string_known: "deref strs p = Some str \<Longrightarrow> read_string plat strs p = Some str"
  by (simp add: read_string_def)

lemma safe_known:
  "deref strs p = Some str \<Longrightarrow> safe plat strs p s = (printf (''safe path: '' @ str @ ''\<newline>'') s, None)"
  using deref_not_null [of strs p str] by (simp add: safe_def read_string_known)

lemma win_known:
  "deref strs p = Some str \<Longrightarrow> win plat strs p s = (emit (System str) s, None)"
  using deref_not_null [of strs p str] by (simp add: win_def read_string_known)

lemma safe_resume_known:
  "deref strs p = Some str \<Longrightarrow>
   safe_resume plat strs p s = (cout_endl (''safe resume: '' @ str) s, None)"
  using deref_not_null [of strs p str] by (simp add: safe_resume_def read_string_known)

lemma check_password_known:
  "deref strs p = Some str \<Longrightarrow> check_password plat strs p s = (check_password_body str s, None)"
  by (simp add: check_password_def read_string_known)

section \<open>The state at the call through the slot\<close>

lemma simple_setup_state:
  "simple_setup img \<lparr>mem = junk, reach = 0, stdin = inp, trace = []\<rparr> =
   \<lparr>mem = store_bytes 0 (take 200 inp) (store_ptr 32 (safe_at img) junk),
    reach = max 40 (min 200 (length inp)), stdin = drop 200 inp,
    trace = [Frame_store 32 (safe_at img), Stdout (win_banner (win_at img) @ ''\<newline>''), Fflush,
             Fread 0 200 (min 200 (length inp))]\<rparr>"
  by (simp add: simple_setup_def Let_def machine_ops simple_layout offsetof_buf_def READ_LEN_def
      length_le_bytes store_ptr_def min.commute)

lemma step0_setup_state:
  "step0_setup img \<lparr>mem = junk, reach = 0, stdin = inp, trace = []\<rparr> =
   \<lparr>mem = store_bytes 0 (take 200 inp) (store_ptr 32 (check_password_at img) junk),
    reach = max 40 (min 200 (length inp)), stdin = drop 200 inp,
    trace = [Frame_store 32 (check_password_at img),
             Stdout (win_banner (step0_win_at img) @ ''\<newline>''),
             Fread 0 200 (min 200 (length inp))]\<rparr>"
  by (simp add: step0_setup_def Let_def machine_ops step0_layout offsetof_buf_def READ_LEN_def
      length_le_bytes store_ptr_def min.commute)

lemma simple_main_call:
  "simple_main plat img argv junk inp =
     (case simple_call_slot plat img (simple_strings img argv)
             (if 1 < length argv then fst (argv ! 1) else echo_safe_at img)
             (simple_setup img \<lparr>mem = junk, reach = 0, stdin = inp, trace = []\<rparr>) of
        (s5, Some crash) \<Rightarrow> (s5, crash)
      | (s5, None) \<Rightarrow> main_return plat sizeof_Frame s5)"
  by (simp add: simple_main_def simple_main_body_def Let_def)

section \<open>The simple victim under the literal payload\<close>

lemma simple_win_run:
  assumes "deref strs cmd = Some str" and "simple_resolve img (win_at img) = Some Win"
  shows "case simple_main_body plat img strs cmd
                \<lparr>mem = junk, reach = 0, stdin = replicate 32 0x41 @ le_bytes (win_at img),
                 trace = []\<rparr> of
            (s, out) \<Rightarrow>
              load_ptr offsetof_fn (mem s) = win_at img \<and>
              trace s =
                [Frame_store offsetof_fn (safe_at img),
                 Stdout (win_banner (win_at img) @ ''\<newline>''), Fflush,
                 Fread offsetof_buf READ_LEN 40, Call_slot (win_at img), System str] \<and>
              out = Exit 0"
  unfolding simple_main_body_def simple_setup_state
  using assms(2)
  by (simp add: simple_call_slot_def Let_def simple_layout offsetof_buf_def READ_LEN_def
      length_le_bytes payload_slot win_known [OF assms(1)] main_return_def emit_def)

text \<open>
  Claim C1.  The Frame of the simple victim is a 32-byte buffer with the
  8-byte slot right behind it.  On the payload of 32 bytes \<open>'A'\<close> followed by
  the eight little-endian bytes of the address of \<^verbatim>\<open>win\<close>, in a process whose
  addresses are sound and on every platform, the slot holds the address of
  \<^verbatim>\<open>win\<close> after the read, the call through the slot runs \<^verbatim>\<open>win\<close> on the command
  string (the first argument, or \<^verbatim>\<open>echo SAFE\<close> without one), which hands it to
  \<^verbatim>\<open>system\<close>, and \<^verbatim>\<open>main\<close> returns 0.
\<close>

theorem simple_overflow_reaches_win:
  assumes "wf_simple img argv"
  shows "offsetof_fn = offsetof_buf + 32 \<and> sizeof_Frame = offsetof_fn + 8 \<and>
         (case simple_main plat img argv junk (replicate 32 0x41 @ le_bytes (win_at img)) of
            (s, out) \<Rightarrow>
              load_ptr offsetof_fn (mem s) = win_at img \<and>
              trace s =
                [Frame_store offsetof_fn (safe_at img),
                 Stdout (win_banner (win_at img) @ ''\<newline>''), Fflush,
                 Fread offsetof_buf READ_LEN 40, Call_slot (win_at img),
                 System (if 1 < length argv then snd (argv ! 1) else ''echo SAFE'')] \<and>
              out = Exit 0)"
proof -
  let ?cmd = "if 1 < length argv then fst (argv ! 1) else echo_safe_at img"
  let ?str = "if 1 < length argv then snd (argv ! 1) else ''echo SAFE''"
  have str: "deref (simple_strings img argv) ?cmd = Some ?str"
    using deref_simple_argv1 [OF assms] deref_simple_literal [OF assms] by simp
  have layout: "offsetof_fn = offsetof_buf + 32" "sizeof_Frame = offsetof_fn + 8"
    by (simp_all add: simple_layout offsetof_buf_def)
  have run: "case simple_main_body plat img (simple_strings img argv) ?cmd
                \<lparr>mem = junk, reach = 0, stdin = replicate 32 0x41 @ le_bytes (win_at img),
                 trace = []\<rparr> of
            (s, out) \<Rightarrow>
              load_ptr offsetof_fn (mem s) = win_at img \<and>
              trace s =
                [Frame_store offsetof_fn (safe_at img),
                 Stdout (win_banner (win_at img) @ ''\<newline>''), Fflush,
                 Fread offsetof_buf READ_LEN 40, Call_slot (win_at img), System ?str] \<and>
              out = Exit 0"
    by (rule simple_win_run [OF str simple_resolve_win [OF assms]])
  show ?thesis
    unfolding simple_main_def Let_def
    using layout run by blast
qed

theorem simple_overflow_reaches_win_witness:
  "wf_simple \<lparr>safe_at = 0x401136, win_at = 0x401156, echo_safe_at = 0x402004\<rparr>
     [(0x7FFE0010, ''./step1_overflow''), (0x7FFE0021, ''id'')] \<and>
   (case simple_main sealed \<lparr>safe_at = 0x401136, win_at = 0x401156, echo_safe_at = 0x402004\<rparr>
           [(0x7FFE0010, ''./step1_overflow''), (0x7FFE0021, ''id'')] (\<lambda>i. 0)
           (replicate 32 0x41 @ le_bytes 0x401156) of
      (s, out) \<Rightarrow>
        load_ptr 32 (mem s) = 0x401156 \<and>
        trace s = [Frame_store 32 0x401136, Stdout (win_banner 0x401156 @ ''\<newline>''), Fflush,
                   Fread 0 200 40, Call_slot 0x401156, System ''id''] \<and>
        out = Exit 0)"
proof -
  have wf: "wf_simple \<lparr>safe_at = 0x401136, win_at = 0x401156, echo_safe_at = 0x402004\<rparr>
     [(0x7FFE0010, ''./step1_overflow''), (0x7FFE0021, ''id'')]"
    by (simp add: wf_simple_def wf_strings_def simple_strings_def)
  show ?thesis
    using wf simple_overflow_reaches_win [OF wf, of sealed "\<lambda>i. 0"]
    by (simp add: simple_layout offsetof_buf_def READ_LEN_def)
qed

section \<open>The coroutine chain\<close>

lemma c3_body_fields:
  "mem (c3_body s) = store_bytes offsetof_buf (take READ_LEN (stdin s)) (mem s)"
  "reach (c3_body s) = max (reach s) (offsetof_buf + length (take READ_LEN (stdin s)))"
  "stdin (c3_body s) = drop READ_LEN (stdin s)"
  "trace (c3_body s) = trace s @ [Stdout ''c3(): enter input\<newline>'', Fflush,
      Fread offsetof_buf READ_LEN (length (take READ_LEN (stdin s)))]"
  "point (c3_body s) = point s"
  "continuation (c3_body s) = continuation s"
  by (simp_all add: c3_body_def machine_ops Let_def)

lemma start_chain:
  assumes "point s C1 = At_initial" "continuation s C1 = None"
  shows "\<exists>s'. start C1 s = Some s' \<and> mem s' = mem (c3_body s) \<and> reach s' = reach (c3_body s)
      \<and> stdin s' = stdin (c3_body s) \<and> trace s' = trace (c3_body s)
      \<and> point s' C1 = At_final \<and> point s' C2 = Destroyed \<and> point s' C3 = Destroyed"
  unfolding start_def
  apply (subst resume.simps)
  apply (simp add: assms task_ops)
  apply (subst resume.simps)
  apply (simp add: assms task_ops)
  apply (subst resume.simps)
  apply (simp add: assms task_ops c3_body_fields)
  apply (subst resume.simps)
  apply (simp add: assms task_ops c3_body_fields)
  apply (subst resume.simps)
  apply (simp add: assms task_ops c3_body_fields)
  done

lemma start_created:
  "\<exists>s'. start C1 (create C1 s) = Some s'
     \<and> mem s' = store_bytes offsetof_buf (take READ_LEN (stdin s)) (mem s)
     \<and> reach s' = max (reach s) (offsetof_buf + length (take READ_LEN (stdin s)))
     \<and> stdin s' = drop READ_LEN (stdin s)
     \<and> trace s' = trace s @ [Stdout ''c3(): enter input\<newline>'', Fflush,
          Fread offsetof_buf READ_LEN (length (take READ_LEN (stdin s)))]"
proof -
  have "point (create C1 s) C1 = At_initial" "continuation (create C1 s) C1 = None"
    by (simp_all add: create_def)
  from start_chain [OF this] obtain s' where "start C1 (create C1 s) = Some s'"
    "mem s' = mem (c3_body (create C1 s))" "reach s' = reach (c3_body (create C1 s))"
    "stdin s' = stdin (c3_body (create C1 s))" "trace s' = trace (c3_body (create C1 s))"
    by blast
  then show ?thesis
    by (simp add: c3_body_fields) (simp add: create_def)
qed

text \<open>
  The coroutine victim always returns from \<^verbatim>\<open>start\<close>; \<open>s5\<close> is the state in
  which it does.
\<close>

lemma coro_setup_state:
  fixes img argv
  defines "p \<equiv> if 1 < length argv then fst (argv ! 1) else coro_echo_safe_at img"
  shows "\<exists>s5. coro_setup img argv
            \<lparr>mem = junk, reach = 0, stdin = inp, trace = [],
              point = (\<lambda>c. Not_created), continuation = (\<lambda>c. None)\<rparr> = Some s5
     \<and> mem s5 = store_bytes 0 (take 200 inp) (store_ptr 40 p (store_ptr 32 (safe_resume_at img) junk))
     \<and> reach s5 = max 48 (min 200 (length inp))
     \<and> stdin s5 = drop 200 inp
     \<and> trace s5 = [Frame_store 32 (safe_resume_at img), Frame_store 40 p,
          Stdout (win_banner (coro_win_at img) @ ''\<newline>''), Fflush,
          Stdout ''c3(): enter input\<newline>'', Fflush,
          Fread 0 200 (min 200 (length inp))]"
  unfolding coro_setup_def Let_def p_def [symmetric]
  using start_created [of "cout_endl (win_banner (coro_win_at img))
            (assign_ptr offsetof_cmd p
               (assign_ptr offsetof_resume (safe_resume_at img)
                  \<lparr>mem = junk, reach = 0, stdin = inp, trace = [],
                    point = (\<lambda>c. Not_created), continuation = (\<lambda>c. None)\<rparr>))"]
  by (simp add: machine_ops coro_layout offsetof_buf_def READ_LEN_def length_le_bytes
      store_ptr_def min.commute)

lemma coro_main_call:
  "coro_setup img argv \<lparr>mem = junk, reach = 0, stdin = inp, trace = [],
              point = (\<lambda>c. Not_created), continuation = (\<lambda>c. None)\<rparr> = Some s5 \<Longrightarrow>
   coro_main plat img argv junk inp =
     Some (if sizeof_coro_Frame < reach s5
           then continue_with
                  (leave plat (coro_call_and_release plat img (coro_strings img argv))) s5
           else case coro_call_slot plat img (coro_strings img argv) s5 of
                  (s6, Some crash) \<Rightarrow> (s6, crash)
                | (s6, None) \<Rightarrow> (destroy C1 (emit Free s6), Exit 0))"
  by (simp add: coro_main_def coro_call_and_release_def Let_def)

lemma step0_main_call:
  "step0_main plat img argv junk inp =
     (case step0_call_slot plat img argv
             (step0_setup img \<lparr>mem = junk, reach = 0, stdin = inp, trace = []\<rparr>) of
        (s4, Some crash) \<Rightarrow> (s4, crash)
      | (s4, None) \<Rightarrow> main_return plat sizeof_step0_Frame s4)"
  by (simp add: step0_main_def)

section \<open>The call through the slot\<close>

text \<open>The functions of the victims leave the Frame and standard input alone.\<close>

lemma safe_effect:
  "mem (fst (safe plat strs p s)) = mem s"
  "reach (fst (safe plat strs p s)) = reach s"
  "stdin (fst (safe plat strs p s)) = stdin s"
  "filter touches_frame (trace (fst (safe plat strs p s))) = filter touches_frame (trace s)"
  "filter is_fread (trace (fst (safe plat strs p s))) = filter is_fread (trace s)"
  "prefix (trace s) (trace (fst (safe plat strs p s)))"
  by (simp_all add: safe_def printf_def emit_def split: option.split)

lemma win_effect:
  "mem (fst (win plat strs p s)) = mem s"
  "reach (fst (win plat strs p s)) = reach s"
  "stdin (fst (win plat strs p s)) = stdin s"
  "filter touches_frame (trace (fst (win plat strs p s))) = filter touches_frame (trace s)"
  "filter is_fread (trace (fst (win plat strs p s))) = filter is_fread (trace s)"
  "prefix (trace s) (trace (fst (win plat strs p s)))"
  by (simp_all add: win_def emit_def split: option.split)

lemma safe_resume_effect:
  "mem (fst (safe_resume plat strs p s)) = mem s"
  "reach (fst (safe_resume plat strs p s)) = reach s"
  "stdin (fst (safe_resume plat strs p s)) = stdin s"
  "filter touches_frame (trace (fst (safe_resume plat strs p s))) = filter touches_frame (trace s)"
  "filter is_fread (trace (fst (safe_resume plat strs p s))) = filter is_fread (trace s)"
  "prefix (trace s) (trace (fst (safe_resume plat strs p s)))"
  by (simp_all add: safe_resume_def cout_endl_def fflush_def printf_def emit_def
      split: option.split)

lemma check_password_effect:
  "mem (fst (check_password plat strs p s)) = mem s"
  "reach (fst (check_password plat strs p s)) = reach s"
  "stdin (fst (check_password plat strs p s)) = stdin s"
  "filter touches_frame (trace (fst (check_password plat strs p s))) = filter touches_frame (trace s)"
  "filter is_fread (trace (fst (check_password plat strs p s))) = filter is_fread (trace s)"
  "prefix (trace s) (trace (fst (check_password plat strs p s)))"
  by (simp_all add: check_password_def check_password_body_def step0_win_def printf_def emit_def
      split: option.split)

lemma step0_win_effect:
  "mem (step0_win s) = mem s"
  "reach (step0_win s) = reach s"
  "stdin (step0_win s) = stdin s"
  "filter touches_frame (trace (step0_win s)) = filter touches_frame (trace s)"
  "filter is_fread (trace (step0_win s)) = filter is_fread (trace s)"
  "prefix (trace s) (trace (step0_win s))"
  by (simp_all add: step0_win_def printf_def emit_def)

lemma emit_fields:
  "mem (emit e s) = mem s" "reach (emit e s) = reach s" "stdin (emit e s) = stdin s"
  "trace (emit e s) = trace s @ [e]"
  by (simp_all add: emit_def)

lemma prefix_snoc_trans: "prefix (xs @ [e]) ys \<Longrightarrow> prefix ys zs \<Longrightarrow> prefix (xs @ [e]) zs"
  by (rule prefix_order.trans)

lemma main_return_prefix: "prefix (trace s) (trace (fst (main_return plat sz s)))"
  by (simp add: main_return_def continue_with_prefix)

lemma finish_prefix:
  "prefix (trace (fst x))
     (trace (fst (case x of (s, Some crash) \<Rightarrow> (s, crash) | (s, None) \<Rightarrow> main_return plat sz s)))"
  by (cases x; cases "snd x") (simp_all add: main_return_prefix)

lemma finish_in_frame:
  "reach (fst x) \<le> sz \<Longrightarrow>
   fst (case x of (s, Some crash) \<Rightarrow> (s, crash) | (s, None) \<Rightarrow> main_return plat sz s) = fst x"
  by (cases x; cases "snd x") (simp_all add: main_return_def)

lemma simple_call_slot_prefix:
  "prefix (trace s @ [Call_slot (load_ptr offsetof_fn (mem s))])
     (trace (fst (simple_call_slot plat img strs cmd s)))"
proof (cases "simple_resolve img (load_ptr offsetof_fn (mem s))")
  case None
  then show ?thesis
    by (simp add: simple_call_slot_def Let_def continue_with_trace emit_fields)
next
  case (Some f)
  then show ?thesis
    using safe_effect(6) [of "emit (Call_slot (load_ptr offsetof_fn (mem s))) s" plat strs]
      win_effect(6) [of "emit (Call_slot (load_ptr offsetof_fn (mem s))) s" plat strs]
    by (cases f) (simp_all add: simple_call_slot_def Let_def emit_fields)
qed

lemma coro_call_slot_prefix:
  "prefix (trace s @ [Call_slot (load_ptr offsetof_resume (mem s))])
     (trace (fst (coro_call_slot plat img strs s)))"
proof (cases "coro_resolve img (load_ptr offsetof_resume (mem s))")
  case None
  then show ?thesis
    by (simp add: coro_call_slot_def Let_def continue_with_trace emit_fields)
next
  case (Some f)
  then show ?thesis
    using safe_resume_effect(6) [of "emit (Call_slot (load_ptr offsetof_resume (mem s))) s" plat strs]
      win_effect(6) [of "emit (Call_slot (load_ptr offsetof_resume (mem s))) s" plat strs]
    by (cases f) (simp_all add: coro_call_slot_def Let_def emit_fields)
qed

lemma step0_call_slot_prefix:
  "prefix (trace s @ [Call_slot (load_ptr offsetof_auth (mem s))])
     (trace (fst (step0_call_slot plat img argv s)))"
proof (cases "step0_resolve img (load_ptr offsetof_auth (mem s))")
  case None
  then show ?thesis
    by (simp add: step0_call_slot_def Let_def continue_with_trace emit_fields)
next
  case (Some f)
  then show ?thesis
    using check_password_effect(6) [of "emit (Call_slot (load_ptr offsetof_auth (mem s))) s" plat argv]
      step0_win_effect(6) [of "emit (Call_slot (load_ptr offsetof_auth (mem s))) s"]
    by (cases f) (simp_all add: step0_call_slot_def Let_def emit_fields)
qed

text \<open>
  A call that lands on one of the two functions of the victim leaves the Frame
  and standard input alone.
\<close>

lemma simple_call_slot_known:
  assumes "simple_resolve img (load_ptr offsetof_fn (mem s)) = Some f"
  shows "mem (fst (simple_call_slot plat img strs cmd s)) = mem s"
    "reach (fst (simple_call_slot plat img strs cmd s)) = reach s"
    "stdin (fst (simple_call_slot plat img strs cmd s)) = stdin s"
    "filter touches_frame (trace (fst (simple_call_slot plat img strs cmd s))) =
       filter touches_frame (trace s) @ [Call_slot (load_ptr offsetof_fn (mem s))]"
    "filter is_fread (trace (fst (simple_call_slot plat img strs cmd s))) = filter is_fread (trace s)"
  using assms
  by (cases f; simp add: simple_call_slot_def Let_def safe_effect win_effect emit_fields)+

lemma coro_call_slot_known:
  assumes "coro_resolve img (load_ptr offsetof_resume (mem s)) = Some f"
  shows "mem (fst (coro_call_slot plat img strs s)) = mem s"
    "reach (fst (coro_call_slot plat img strs s)) = reach s"
    "stdin (fst (coro_call_slot plat img strs s)) = stdin s"
    "filter touches_frame (trace (fst (coro_call_slot plat img strs s))) =
       filter touches_frame (trace s) @ [Call_slot (load_ptr offsetof_resume (mem s))]"
    "filter is_fread (trace (fst (coro_call_slot plat img strs s))) = filter is_fread (trace s)"
  using assms
  by (cases f; simp add: coro_call_slot_def Let_def safe_resume_effect win_effect emit_fields)+

lemma step0_call_slot_known:
  assumes "step0_resolve img (load_ptr offsetof_auth (mem s)) = Some f"
  shows "mem (fst (step0_call_slot plat img argv s)) = mem s"
    "reach (fst (step0_call_slot plat img argv s)) = reach s"
    "stdin (fst (step0_call_slot plat img argv s)) = stdin s"
    "filter touches_frame (trace (fst (step0_call_slot plat img argv s))) =
       filter touches_frame (trace s) @ [Call_slot (load_ptr offsetof_auth (mem s))]"
    "filter is_fread (trace (fst (step0_call_slot plat img argv s))) = filter is_fread (trace s)"
  using assms
  by (cases f; simp add: step0_call_slot_def Let_def check_password_effect step0_win_effect
      emit_fields)+

section \<open>Whole runs\<close>

lemma simple_main_prefix:
  "prefix (trace (simple_setup img \<lparr>mem = junk, reach = 0, stdin = inp, trace = []\<rparr>) @
           [Call_slot (load_ptr offsetof_fn
              (mem (simple_setup img \<lparr>mem = junk, reach = 0, stdin = inp, trace = []\<rparr>)))])
     (trace (fst (simple_main plat img argv junk inp)))"
  unfolding simple_main_call
  by (rule prefix_order.trans [OF simple_call_slot_prefix finish_prefix])

lemma step0_main_prefix:
  "prefix (trace (step0_setup img \<lparr>mem = junk, reach = 0, stdin = inp, trace = []\<rparr>) @
           [Call_slot (load_ptr offsetof_auth
              (mem (step0_setup img \<lparr>mem = junk, reach = 0, stdin = inp, trace = []\<rparr>)))])
     (trace (fst (step0_main plat img argv junk inp)))"
  unfolding step0_main_call
  by (rule prefix_order.trans [OF step0_call_slot_prefix finish_prefix])

lemma simple_main_known:
  assumes "simple_resolve img (load_ptr offsetof_fn
              (mem (simple_setup img \<lparr>mem = junk, reach = 0, stdin = inp, trace = []\<rparr>))) = Some f"
    and "length inp \<le> sizeof_Frame"
  shows "fst (simple_main plat img argv junk inp) =
           fst (simple_call_slot plat img (simple_strings img argv)
             (if 1 < length argv then fst (argv ! 1) else echo_safe_at img)
             (simple_setup img \<lparr>mem = junk, reach = 0, stdin = inp, trace = []\<rparr>))"
proof -
  have "reach (simple_setup img \<lparr>mem = junk, reach = 0, stdin = inp, trace = []\<rparr>) \<le> sizeof_Frame"
    using assms(2) by (simp add: simple_setup_state simple_layout)
  then show ?thesis
    unfolding simple_main_call
    by (intro finish_in_frame) (simp only: simple_call_slot_known(2) [OF assms(1)])
qed

lemma step0_main_known:
  assumes "step0_resolve img (load_ptr offsetof_auth
              (mem (step0_setup img \<lparr>mem = junk, reach = 0, stdin = inp, trace = []\<rparr>))) = Some f"
    and "length inp \<le> sizeof_step0_Frame"
  shows "fst (step0_main plat img argv junk inp) =
           fst (step0_call_slot plat img argv
             (step0_setup img \<lparr>mem = junk, reach = 0, stdin = inp, trace = []\<rparr>))"
proof -
  have "reach (step0_setup img \<lparr>mem = junk, reach = 0, stdin = inp, trace = []\<rparr>)
          \<le> sizeof_step0_Frame"
    using assms(2) by (simp add: step0_setup_state step0_layout)
  then show ?thesis
    unfolding step0_main_call
    by (intro finish_in_frame) (simp only: step0_call_slot_known(2) [OF assms(1)])
qed

text \<open>
  The coroutine victim: \<open>s5\<close> is the state in which \<^verbatim>\<open>start\<close> returns, \<open>t\<close> the state
  the run ends in.
\<close>

lemma coro_main_runs:
  fixes img argv
  defines "p \<equiv> if 1 < length argv then fst (argv ! 1) else coro_echo_safe_at img"
  shows "\<exists>s5 t out.
     coro_setup img argv \<lparr>mem = junk, reach = 0, stdin = inp, trace = [],
              point = (\<lambda>c. Not_created), continuation = (\<lambda>c. None)\<rparr> = Some s5
     \<and> coro_main plat img argv junk inp = Some (t, out)
     \<and> mem s5 = store_bytes 0 (take 200 inp) (store_ptr 40 p (store_ptr 32 (safe_resume_at img) junk))
     \<and> reach s5 = max 48 (min 200 (length inp))
     \<and> stdin s5 = drop 200 inp
     \<and> trace s5 = [Frame_store 32 (safe_resume_at img), Frame_store 40 p,
          Stdout (win_banner (coro_win_at img) @ ''\<newline>''), Fflush,
          Stdout ''c3(): enter input\<newline>'', Fflush,
          Fread 0 200 (min 200 (length inp))]
     \<and> prefix (trace s5) (trace t)
     \<and> (length inp \<le> 48 \<longrightarrow>
          prefix (trace s5 @ [Call_slot (load_ptr offsetof_resume (mem s5))]) (trace t))
     \<and> (length inp \<le> 48 \<and> coro_resolve img (load_ptr offsetof_resume (mem s5)) \<noteq> None \<longrightarrow>
          mem t = mem s5 \<and> stdin t = stdin s5 \<and>
          filter touches_frame (trace t) =
            filter touches_frame (trace s5) @ [Call_slot (load_ptr offsetof_resume (mem s5))] \<and>
          filter is_fread (trace t) = filter is_fread (trace s5))"
proof -
  obtain s5 where s5_def: "coro_setup img argv \<lparr>mem = junk, reach = 0, stdin = inp, trace = [],
              point = (\<lambda>c. Not_created), continuation = (\<lambda>c. None)\<rparr> = Some s5"
    and flds:
     "mem s5 = store_bytes 0 (take 200 inp) (store_ptr 40 p (store_ptr 32 (safe_resume_at img) junk))"
     "reach s5 = max 48 (min 200 (length inp))"
     "stdin s5 = drop 200 inp"
     "trace s5 = [Frame_store 32 (safe_resume_at img), Frame_store 40 p,
          Stdout (win_banner (coro_win_at img) @ ''\<newline>''), Fflush,
          Stdout ''c3(): enter input\<newline>'', Fflush,
          Fread 0 200 (min 200 (length inp))]"
    unfolding p_def using coro_setup_state [of img argv junk inp] by blast
  let ?call = "coro_call_slot plat img (coro_strings img argv) s5"
  let ?fn = "load_ptr offsetof_resume (mem s5)"
  define res where "res = (if sizeof_coro_Frame < reach s5
           then continue_with
                  (leave plat (coro_call_and_release plat img (coro_strings img argv))) s5
           else case ?call of
                  (s6, Some crash) \<Rightarrow> (s6, crash)
                | (s6, None) \<Rightarrow> (destroy C1 (emit Free s6), Exit 0))"
  have main: "coro_main plat img argv junk inp = Some (fst res, snd res)"
    using coro_main_call [OF s5_def, of plat] by (simp add: res_def)
  have over: "sizeof_coro_Frame < reach s5 \<longleftrightarrow> \<not> length inp \<le> 48"
    by (auto simp add: flds coro_layout)
  have trace_in: "length inp \<le> 48 \<Longrightarrow> \<exists>zs. trace (fst res) = trace (fst ?call) @ zs
      \<and> filter touches_frame zs = [] \<and> filter is_fread zs = []"
    by (cases ?call; cases "snd ?call") (simp_all add: res_def over destroy_def emit_def)
  have field_in: "length inp \<le> 48 \<Longrightarrow>
      mem (fst res) = mem (fst ?call) \<and> stdin (fst res) = stdin (fst ?call)"
    by (cases ?call; cases "snd ?call") (simp_all add: res_def over destroy_def emit_def)
  have p1: "prefix (trace s5) (trace (fst res))"
  proof (cases "length inp \<le> 48")
    case True
    then obtain zs where "trace (fst res) = trace (fst ?call) @ zs"
      using trace_in by blast
    moreover have "prefix (trace s5) (trace (fst ?call))"
      using coro_call_slot_prefix [of s5 plat img "coro_strings img argv"]
      by (auto simp add: prefix_def)
    ultimately show ?thesis
      by (auto simp add: prefix_def)
  next
    case False
    then show ?thesis
      by (simp add: res_def over continue_with_prefix)
  qed
  have p2: "length inp \<le> 48 \<longrightarrow> prefix (trace s5 @ [Call_slot ?fn]) (trace (fst res))"
  proof
    assume "length inp \<le> 48"
    then obtain zs where "trace (fst res) = trace (fst ?call) @ zs"
      using trace_in by blast
    then show "prefix (trace s5 @ [Call_slot ?fn]) (trace (fst res))"
      using coro_call_slot_prefix [of s5 plat img "coro_strings img argv"]
      by (auto simp add: prefix_def)
  qed
  have p3: "length inp \<le> 48 \<and> coro_resolve img ?fn \<noteq> None \<longrightarrow>
          mem (fst res) = mem s5 \<and> stdin (fst res) = stdin s5 \<and>
          filter touches_frame (trace (fst res)) =
            filter touches_frame (trace s5) @ [Call_slot ?fn] \<and>
          filter is_fread (trace (fst res)) = filter is_fread (trace s5)"
  proof
    assume a: "length inp \<le> 48 \<and> coro_resolve img ?fn \<noteq> None"
    then obtain f where f: "coro_resolve img ?fn = Some f" by blast
    from a obtain zs where zs: "trace (fst res) = trace (fst ?call) @ zs"
      "filter touches_frame zs = []" "filter is_fread zs = []"
      using trace_in by blast
    show "mem (fst res) = mem s5 \<and> stdin (fst res) = stdin s5 \<and>
          filter touches_frame (trace (fst res)) =
            filter touches_frame (trace s5) @ [Call_slot ?fn] \<and>
          filter is_fread (trace (fst res)) = filter is_fread (trace s5)"
      using a field_in zs by (simp add: coro_call_slot_known [OF f])
  qed
  show ?thesis
    using s5_def main flds p1 p2 p3 by blast
qed

section \<open>Strings of the other victims\<close>

lemma deref_coro_argv1:
  "wf_coro img argv \<Longrightarrow> 1 < length argv \<Longrightarrow>
   deref (coro_strings img argv) (fst (argv ! 1)) = Some (snd (argv ! 1))"
  using deref_nth [of "coro_strings img argv" 2]
  by (simp add: wf_coro_def coro_strings_def)

lemma deref_coro_literal:
  "wf_coro img argv \<Longrightarrow> deref (coro_strings img argv) (coro_echo_safe_at img) = Some ''echo SAFE''"
  using deref_nth [of "coro_strings img argv" 0]
  by (simp add: wf_coro_def coro_strings_def)

lemma deref_step0_argv1:
  "wf_step0 img argv \<Longrightarrow> 1 < length argv \<Longrightarrow>
   deref argv (fst (argv ! 1)) = Some (snd (argv ! 1))"
  using deref_nth [of argv 1] by (simp add: wf_step0_def)

section \<open>Short input\<close>

lemma slot_survives:
  "length bs \<le> 32 \<Longrightarrow> load_ptr 32 (store_bytes 0 bs (store_ptr 32 p m)) = p"
  using load_ptr_store_apart [of 32 0 bs "store_ptr 32 p m"]
  by (simp add: load_store_ptr_same)

lemma slot_survives_cmd:
  "length bs \<le> 32 \<Longrightarrow> load_ptr 32 (store_bytes 0 bs (store_ptr 40 q (store_ptr 32 p m))) = p"
  using load_ptr_store_apart [of 32 0 bs "store_ptr 40 q (store_ptr 32 p m)"]
    load_ptr_store_apart [of 32 40 "le_bytes q" "store_ptr 32 p m"]
  by (simp add: load_store_ptr_same store_ptr_def [of 40])

lemma cmd_survives:
  "length bs \<le> 40 \<Longrightarrow> load_ptr 40 (store_bytes 0 bs (store_ptr 40 q m)) = q"
  using load_ptr_store_apart [of 40 0 bs "store_ptr 40 q m"]
  by (simp add: load_store_ptr_same)

lemma of_char_zero_iff: "of_char c = (0::int) \<longleftrightarrow> c = CHR 0x00"
  using of_char_eq_iff [of c "CHR 0x00", where ?'a = int] by simp

lemma strcmp_zero_iff: "strcmp a b = 0 \<longleftrightarrow> c_string a = c_string b"
  by (induction a b rule: strcmp.induct) (auto simp add: c_string_def of_char_zero_iff)

lemma check_password_body_eq:
  "check_password_body pass s =
     (if c_string pass = ''mypassword'' then step0_win s else printf ''WRONG PASSWORD\<newline>'' s)"
  by (simp add: check_password_body_def strcmp_zero_iff) (simp add: c_string_def)

text \<open>Runs whose input reaches no further than the slot.\<close>

lemma simple_medium:
  fixes img argv
  defines "p \<equiv> if 1 < length argv then fst (argv ! 1) else echo_safe_at img"
  defines "c \<equiv> if 1 < length argv then snd (argv ! 1) else ''echo SAFE''"
  assumes "length inp \<le> 40" "wf_simple img argv"
  shows "simple_main plat img argv junk inp =
     (let s = simple_setup img \<lparr>mem = junk, reach = 0, stdin = inp, trace = []\<rparr>;
          fn = load_ptr offsetof_fn (mem s);
          s' = emit (Call_slot fn) s
      in case simple_resolve img fn of
           None \<Rightarrow>
             (case continue_with (elsewhere plat fn p) s' of
                (t, Some crash) \<Rightarrow> (t, crash)
              | (t, None) \<Rightarrow> main_return plat sizeof_Frame t)
         | Some Safe \<Rightarrow> (printf (''safe path: '' @ c @ ''\<newline>'') s', Exit 0)
         | Some Win \<Rightarrow> (emit (System c) s', Exit 0))"
proof -
  define s where "s = simple_setup img \<lparr>mem = junk, reach = 0, stdin = inp, trace = []\<rparr>"
  have r: "reach s = 40"
    using assms(3) by (simp add: s_def simple_setup_state)
  have str: "deref (simple_strings img argv) p = Some c"
    unfolding p_def c_def
    using deref_simple_argv1 [OF assms(4)] deref_simple_literal [OF assms(4)] by simp
  show ?thesis
    unfolding simple_main_call p_def [symmetric] s_def [symmetric]
    by (simp add: simple_call_slot_def Let_def r simple_layout safe_known [OF str]
        win_known [OF str] main_return_def emit_fields printf_def
        split: option.split simple_fn.split)
qed

lemma step0_medium:
  fixes argv
  defines "p \<equiv> fst (argv ! 1)"
  defines "c \<equiv> snd (argv ! 1)"
  assumes "length inp \<le> 40" "wf_step0 img argv" "1 < length argv"
  shows "step0_main plat img argv junk inp =
     (let s = step0_setup img \<lparr>mem = junk, reach = 0, stdin = inp, trace = []\<rparr>;
          fn = load_ptr offsetof_auth (mem s);
          s' = emit (Call_slot fn) s
      in case step0_resolve img fn of
           None \<Rightarrow>
             (case continue_with (elsewhere plat fn p) s' of
                (t, Some crash) \<Rightarrow> (t, crash)
              | (t, None) \<Rightarrow> main_return plat sizeof_step0_Frame t)
         | Some Check_password \<Rightarrow> (check_password_body c s', Exit 0)
         | Some Step0_win \<Rightarrow> (step0_win s', Exit 0))"
proof -
  define s where "s = step0_setup img \<lparr>mem = junk, reach = 0, stdin = inp, trace = []\<rparr>"
  have r: "reach s = 40"
    using assms(3) by (simp add: s_def step0_setup_state)
  have str: "deref argv p = Some c"
    unfolding p_def c_def by (rule deref_step0_argv1 [OF assms(4,5)])
  have arg: "argv_at argv (Suc 0) = Some p"
    using assms(5) by (simp add: argv_at_def p_def)
  have r1: "reach (check_password_body c t) = reach t" for t :: machine
    by (simp add: check_password_body_def step0_win_def printf_def emit_def)
  show ?thesis
    unfolding step0_main_call s_def [symmetric]
    by (simp add: step0_call_slot_def Let_def r r1 step0_layout arg check_password_known [OF str]
        main_return_def emit_fields step0_win_effect
        split: option.split step0_fn.split)
qed

lemma coro_medium:
  fixes img argv
  defines "p \<equiv> if 1 < length argv then fst (argv ! 1) else coro_echo_safe_at img"
  defines "c \<equiv> if 1 < length argv then snd (argv ! 1) else ''echo SAFE''"
  assumes "length inp \<le> 40" "wf_coro img argv"
  shows "\<exists>s. coro_setup img argv \<lparr>mem = junk, reach = 0, stdin = inp, trace = [],
              point = (\<lambda>c. Not_created), continuation = (\<lambda>c. None)\<rparr> = Some s \<and>
     mem s = store_bytes 0 inp (store_ptr 40 p (store_ptr 32 (safe_resume_at img) junk)) \<and>
     trace s = [Frame_store 32 (safe_resume_at img), Frame_store 40 p,
          Stdout (win_banner (coro_win_at img) @ ''\<newline>''), Fflush,
          Stdout ''c3(): enter input\<newline>'', Fflush, Fread 0 200 (length inp)] \<and>
     load_ptr offsetof_cmd (mem s) = p \<and>
     coro_main plat img argv junk inp =
       Some (let fn = load_ptr offsetof_resume (mem s);
                 s' = emit (Call_slot fn) s
             in case coro_resolve img fn of
                  None \<Rightarrow>
                    (case continue_with (elsewhere plat fn p) s' of
                       (t, Some crash) \<Rightarrow> (t, crash)
                     | (t, None) \<Rightarrow> (destroy C1 (emit Free t), Exit 0))
                | Some Safe_resume \<Rightarrow>
                    (destroy C1 (emit Free (cout_endl (''safe resume: '' @ c) s')), Exit 0)
                | Some Coro_win \<Rightarrow> (destroy C1 (emit Free (emit (System c) s')), Exit 0))"
proof -
  obtain s t out where s: "coro_setup img argv \<lparr>mem = junk, reach = 0, stdin = inp, trace = [],
              point = (\<lambda>c. Not_created), continuation = (\<lambda>c. None)\<rparr> = Some s"
    and flds:
     "mem s = store_bytes 0 (take 200 inp) (store_ptr 40 p (store_ptr 32 (safe_resume_at img) junk))"
     "reach s = max 48 (min 200 (length inp))"
     "trace s = [Frame_store 32 (safe_resume_at img), Frame_store 40 p,
          Stdout (win_banner (coro_win_at img) @ ''\<newline>''), Fflush,
          Stdout ''c3(): enter input\<newline>'', Fflush,
          Fread 0 200 (min 200 (length inp))]"
    unfolding p_def using coro_main_runs [of img argv junk inp plat] by blast
  have m: "mem s = store_bytes 0 inp (store_ptr 40 p (store_ptr 32 (safe_resume_at img) junk))"
    and r: "reach s = 48"
    and tr: "trace s = [Frame_store 32 (safe_resume_at img), Frame_store 40 p,
          Stdout (win_banner (coro_win_at img) @ ''\<newline>''), Fflush,
          Stdout ''c3(): enter input\<newline>'', Fflush, Fread 0 200 (length inp)]"
    using assms(3) by (simp_all add: flds)
  have cmd: "load_ptr offsetof_cmd (mem s) = p"
    using assms(3) by (simp add: m coro_layout cmd_survives)
  have str: "deref (coro_strings img argv) p = Some c"
    unfolding p_def c_def
    using deref_coro_argv1 [OF assms(4)] deref_coro_literal [OF assms(4)] by simp
  have "coro_main plat img argv junk inp =
       Some (let fn = load_ptr offsetof_resume (mem s);
                 s' = emit (Call_slot fn) s
             in case coro_resolve img fn of
                  None \<Rightarrow>
                    (case continue_with (elsewhere plat fn p) s' of
                       (t, Some crash) \<Rightarrow> (t, crash)
                     | (t, None) \<Rightarrow> (destroy C1 (emit Free t), Exit 0))
                | Some Safe_resume \<Rightarrow>
                    (destroy C1 (emit Free (cout_endl (''safe resume: '' @ c) s')), Exit 0)
                | Some Coro_win \<Rightarrow> (destroy C1 (emit Free (emit (System c) s')), Exit 0))"
    unfolding coro_main_call [OF s]
    by (simp add: coro_call_slot_def Let_def r cmd coro_layout(3) safe_resume_known [OF str]
        win_known [OF str] split: option.split coro_fn.split)
  with s m tr cmd show ?thesis by blast
qed

section \<open>Input that stays inside the buffer\<close>

lemma step0_short:
  assumes "length inp \<le> 32"
  shows "(let s = step0_setup simg \<lparr>mem = junk, reach = 0, stdin = inp, trace = []\<rparr>;
          s' = emit (Call_slot (check_password_at simg)) s;
          pass = (case argv_at sargv 1 of Some p \<Rightarrow> p | None \<Rightarrow> past_argv splat)
      in load_ptr offsetof_auth (mem s) = check_password_at simg \<and>
         step0_resolve simg (load_ptr offsetof_auth (mem s)) = Some Check_password \<and>
         step0_main splat simg sargv junk inp =
           (case check_password splat sargv pass s' of
              (t, Some crash) \<Rightarrow> (t, crash)
            | (t, None) \<Rightarrow> (t, Exit 0)) \<and>
         load_ptr offsetof_auth (mem (fst (step0_main splat simg sargv junk inp)))
           = check_password_at simg \<and>
         take 2 (from_read (trace (fst (step0_main splat simg sargv junk inp)))) =
           [Fread offsetof_buf READ_LEN (length inp), Call_slot (check_password_at simg)])"
proof -
  define s where "s = step0_setup simg \<lparr>mem = junk, reach = 0, stdin = inp, trace = []\<rparr>"
  define pass where "pass = (case argv_at sargv 1 of Some p \<Rightarrow> p | None \<Rightarrow> past_argv splat)"
  have r: "reach s = 40"
    using assms by (simp add: s_def step0_setup_state)
  have slot: "load_ptr offsetof_auth (mem s) = check_password_at simg"
    using assms by (simp add: s_def step0_setup_state step0_layout slot_survives)
  have tr: "trace s = [Frame_store 32 (check_password_at simg),
             Stdout (win_banner (step0_win_at simg) @ ''\<newline>''), Fread 0 200 (length inp)]"
    using assms by (simp add: s_def step0_setup_state)
  have res: "step0_resolve simg (load_ptr offsetof_auth (mem s)) = Some Check_password"
    by (simp add: slot step0_resolve_def)
  have call: "step0_call_slot splat simg sargv s =
      check_password splat sargv pass (emit (Call_slot (check_password_at simg)) s)"
    using res by (simp add: step0_call_slot_def Let_def r step0_layout slot [unfolded step0_layout]
        pass_def)
  have r2: "reach (fst (check_password splat sargv pass (emit (Call_slot (check_password_at simg)) s)))
      = 40"
    by (simp add: check_password_effect emit_fields r)
  have main: "step0_main splat simg sargv junk inp =
           (case check_password splat sargv pass (emit (Call_slot (check_password_at simg)) s) of
              (t, Some crash) \<Rightarrow> (t, crash)
            | (t, None) \<Rightarrow> (t, Exit 0))"
    unfolding step0_main_call s_def [symmetric] call
    using r2
    by (cases "check_password splat sargv pass (emit (Call_slot (check_password_at simg)) s)";
        cases "snd (check_password splat sargv pass (emit (Call_slot (check_password_at simg)) s))")
      (simp_all add: main_return_def step0_layout)
  have fin: "fst (step0_main splat simg sargv junk inp) =
      fst (check_password splat sargv pass (emit (Call_slot (check_password_at simg)) s))"
    unfolding main
    by (cases "check_password splat sargv pass (emit (Call_slot (check_password_at simg)) s)";
        cases "snd (check_password splat sargv pass (emit (Call_slot (check_password_at simg)) s))")
      simp_all
  have m: "load_ptr offsetof_auth (mem (fst (step0_main splat simg sargv junk inp)))
           = check_password_at simg"
    by (simp add: fin check_password_effect emit_fields slot)
  obtain zs where zs: "trace (fst (step0_main splat simg sargv junk inp)) =
      (trace s @ [Call_slot (check_password_at simg)]) @ zs"
    using check_password_effect(6) [of "emit (Call_slot (check_password_at simg)) s" splat sargv pass]
    by (auto simp add: fin emit_fields prefix_def)
  have t2: "take 2 (from_read (trace (fst (step0_main splat simg sargv junk inp)))) =
           [Fread offsetof_buf READ_LEN (length inp), Call_slot (check_password_at simg)]"
    by (simp add: zs tr from_read_def offsetof_buf_def READ_LEN_def)
  show ?thesis
    unfolding Let_def s_def [symmetric] pass_def [symmetric]
    using slot res main m t2 by blast
qed

text \<open>
  Claim C9.  When standard input holds at most 32 bytes, the read leaves the
  slot as \<^verbatim>\<open>main\<close> set it, and the call through the slot calls the legitimate
  function, on every platform.  In the simple and in the coroutine victim, in
  a process whose addresses are sound, the slot holds the address of \<^verbatim>\<open>safe\<close>
  (\<^verbatim>\<open>safe_resume\<close>) after the run, the call goes to that address, the function
  prints the command string, and \<^verbatim>\<open>main\<close> returns 0.  In the step-0 variant,
  with or without an argument and whatever the addresses, the slot holds the
  address of \<^verbatim>\<open>check_password\<close> when it is called and when the run ends, and the
  run is the call of \<^verbatim>\<open>check_password\<close> on \<^verbatim>\<open>argv[1]\<close> followed by the return
  of \<^verbatim>\<open>main\<close>.
\<close>

theorem short_input_keeps_slot:
  assumes "length inp \<le> BUF_LEN"
    and "wf_simple img argv" and "wf_coro cimg cargv"
  shows
   "(case simple_main plat img argv junk inp of
       (s, out) \<Rightarrow>
         load_ptr offsetof_fn (mem s) = safe_at img \<and>
         from_read (trace s) =
           [Fread offsetof_buf READ_LEN (length inp), Call_slot (safe_at img),
            Stdout (''safe path: '' @ (if 1 < length argv then snd (argv ! 1) else ''echo SAFE'')
                      @ ''\<newline>'')] \<and>
         out = Exit 0) \<and>
    (\<exists>s. coro_main cplat cimg cargv junk inp = Some (s, Exit 0) \<and>
         load_ptr offsetof_resume (mem s) = safe_resume_at cimg \<and>
         from_read (trace s) =
           [Fread offsetof_buf READ_LEN (length inp), Call_slot (safe_resume_at cimg),
            Stdout (''safe resume: '' @ (if 1 < length cargv then snd (cargv ! 1) else ''echo SAFE'')
                      @ ''\<newline>''), Fflush, Free]) \<and>
    (let s = step0_setup simg \<lparr>mem = junk, reach = 0, stdin = inp, trace = []\<rparr>;
         s' = emit (Call_slot (check_password_at simg)) s;
         pass = (case argv_at sargv 1 of Some p \<Rightarrow> p | None \<Rightarrow> past_argv splat)
     in load_ptr offsetof_auth (mem s) = check_password_at simg \<and>
        step0_resolve simg (load_ptr offsetof_auth (mem s)) = Some Check_password \<and>
        step0_main splat simg sargv junk inp =
          (case check_password splat sargv pass s' of
             (t, Some crash) \<Rightarrow> (t, crash)
           | (t, None) \<Rightarrow> (t, Exit 0)) \<and>
        load_ptr offsetof_auth (mem (fst (step0_main splat simg sargv junk inp)))
          = check_password_at simg \<and>
        take 2 (from_read (trace (fst (step0_main splat simg sargv junk inp)))) =
          [Fread offsetof_buf READ_LEN (length inp), Call_slot (check_password_at simg)])"
proof -
  have l32: "length inp \<le> 32" and l40: "length inp \<le> 40"
    using assms(1) by (simp_all add: BUF_LEN_def)
  have simple: "case simple_main plat img argv junk inp of
       (s, out) \<Rightarrow>
         load_ptr offsetof_fn (mem s) = safe_at img \<and>
         from_read (trace s) =
           [Fread offsetof_buf READ_LEN (length inp), Call_slot (safe_at img),
            Stdout (''safe path: '' @ (if 1 < length argv then snd (argv ! 1) else ''echo SAFE'')
                      @ ''\<newline>'')] \<and>
         out = Exit 0"
    using slot_survives [OF l32, of "safe_at img" junk] l40
    by (simp add: simple_medium [OF l40 assms(2)] Let_def simple_setup_state simple_resolve_safe
        simple_layout from_read_def offsetof_buf_def READ_LEN_def printf_def emit_def)
  have coro: "\<exists>s. coro_main cplat cimg cargv junk inp = Some (s, Exit 0) \<and>
         load_ptr offsetof_resume (mem s) = safe_resume_at cimg \<and>
         from_read (trace s) =
           [Fread offsetof_buf READ_LEN (length inp), Call_slot (safe_resume_at cimg),
            Stdout (''safe resume: '' @ (if 1 < length cargv then snd (cargv ! 1) else ''echo SAFE'')
                      @ ''\<newline>''), Fflush, Free]"
  proof -
    let ?p = "if 1 < length cargv then fst (cargv ! 1) else coro_echo_safe_at cimg"
    let ?c = "if 1 < length cargv then snd (cargv ! 1) else ''echo SAFE''"
    obtain s where m: "mem s = store_bytes 0 inp
          (store_ptr 40 ?p (store_ptr 32 (safe_resume_at cimg) junk))"
      and tr: "trace s = [Frame_store 32 (safe_resume_at cimg), Frame_store 40 ?p,
          Stdout (win_banner (coro_win_at cimg) @ ''\<newline>''), Fflush,
          Stdout ''c3(): enter input\<newline>'', Fflush, Fread 0 200 (length inp)]"
      and main: "coro_main cplat cimg cargv junk inp =
       Some (let fn = load_ptr offsetof_resume (mem s);
                 s' = emit (Call_slot fn) s
             in case coro_resolve cimg fn of
                  None \<Rightarrow>
                    (case continue_with (elsewhere cplat fn ?p) s' of
                       (t, Some crash) \<Rightarrow> (t, crash)
                     | (t, None) \<Rightarrow> (destroy C1 (emit Free t), Exit 0))
                | Some Safe_resume \<Rightarrow>
                    (destroy C1 (emit Free (cout_endl (''safe resume: '' @ ?c) s')), Exit 0)
                | Some Coro_win \<Rightarrow> (destroy C1 (emit Free (emit (System ?c) s')), Exit 0))"
      using coro_medium [OF l40 assms(3), of junk cplat] by blast
    have slot: "load_ptr offsetof_resume (mem s) = safe_resume_at cimg"
      using slot_survives_cmd [OF l32, of ?p "safe_resume_at cimg" junk]
      by (simp only: m coro_layout)
    let ?t = "destroy C1 (emit Free (cout_endl (''safe resume: '' @ ?c)
                 (emit (Call_slot (safe_resume_at cimg)) s)))"
    have "coro_main cplat cimg cargv junk inp = Some (?t, Exit 0)"
      unfolding main by (simp add: Let_def slot coro_resolve_def)
    moreover have "load_ptr offsetof_resume (mem ?t) = safe_resume_at cimg"
      by (simp add: destroy_def emit_def cout_endl_def fflush_def printf_def slot)
    moreover have "from_read (trace ?t) =
           [Fread offsetof_buf READ_LEN (length inp), Call_slot (safe_resume_at cimg),
            Stdout (''safe resume: '' @ ?c @ ''\<newline>''), Fflush, Free]"
      by (simp add: destroy_def emit_def cout_endl_def fflush_def printf_def tr from_read_def
          offsetof_buf_def READ_LEN_def)
    ultimately show ?thesis by blast
  qed
  have step0: "let s = step0_setup simg \<lparr>mem = junk, reach = 0, stdin = inp, trace = []\<rparr>;
         s' = emit (Call_slot (check_password_at simg)) s;
         pass = (case argv_at sargv 1 of Some p \<Rightarrow> p | None \<Rightarrow> past_argv splat)
     in load_ptr offsetof_auth (mem s) = check_password_at simg \<and>
        step0_resolve simg (load_ptr offsetof_auth (mem s)) = Some Check_password \<and>
        step0_main splat simg sargv junk inp =
          (case check_password splat sargv pass s' of
             (t, Some crash) \<Rightarrow> (t, crash)
           | (t, None) \<Rightarrow> (t, Exit 0)) \<and>
        load_ptr offsetof_auth (mem (fst (step0_main splat simg sargv junk inp)))
          = check_password_at simg \<and>
        take 2 (from_read (trace (fst (step0_main splat simg sargv junk inp)))) =
          [Fread offsetof_buf READ_LEN (length inp), Call_slot (check_password_at simg)]"
    by (rule step0_short [OF l32])
  from simple coro step0 show ?thesis by blast
qed

theorem short_input_keeps_slot_witness:
  "length [0x68, 0x69 :: byte] \<le> BUF_LEN \<and>
   wf_simple \<lparr>safe_at = 0x401136, win_at = 0x401156, echo_safe_at = 0x402004\<rparr>
     [(0x7FFE0010, ''./victim''), (0x7FFE0021, ''id'')] \<and>
   wf_coro \<lparr>safe_resume_at = 0x401136, coro_win_at = 0x401156, coro_echo_safe_at = 0x402004\<rparr>
     [(0x7FFE0010, ''./victim''), (0x7FFE0021, ''id'')] \<and>
   snd (simple_main sealed \<lparr>safe_at = 0x401136, win_at = 0x401156, echo_safe_at = 0x402004\<rparr>
     [(0x7FFE0010, ''./victim''), (0x7FFE0021, ''id'')] (\<lambda>i. 0) [0x68, 0x69]) = Exit 0 \<and>
   from_read (trace (fst (simple_main sealed
       \<lparr>safe_at = 0x401136, win_at = 0x401156, echo_safe_at = 0x402004\<rparr>
       [(0x7FFE0010, ''./victim''), (0x7FFE0021, ''id'')] (\<lambda>i. 0) [0x68, 0x69])))
     = [Fread 0 200 2, Call_slot 0x401136, Stdout ''safe path: id\<newline>''] \<and>
   (\<exists>s. coro_main sealed
       \<lparr>safe_resume_at = 0x401136, coro_win_at = 0x401156, coro_echo_safe_at = 0x402004\<rparr>
       [(0x7FFE0010, ''./victim''), (0x7FFE0021, ''id'')] (\<lambda>i. 0) [0x68, 0x69] = Some (s, Exit 0) \<and>
      from_read (trace s)
        = [Fread 0 200 2, Call_slot 0x401136, Stdout ''safe resume: id\<newline>'', Fflush, Free]) \<and>
   load_ptr 32 (mem (fst (step0_main sealed \<lparr>check_password_at = 0x401156, step0_win_at = 0x401136\<rparr>
       [(0x7FFE0010, ''./victim'')] (\<lambda>i. 0) [0x68, 0x69]))) = 0x401156 \<and>
   take 2 (from_read (trace (fst (step0_main sealed
       \<lparr>check_password_at = 0x401156, step0_win_at = 0x401136\<rparr>
       [(0x7FFE0010, ''./victim'')] (\<lambda>i. 0) [0x68, 0x69]))))
     = [Fread 0 200 2, Call_slot 0x401156] \<and>
   snd (step0_main sealed \<lparr>check_password_at = 0x401156, step0_win_at = 0x401136\<rparr>
       [(0x7FFE0010, ''./victim'')] (\<lambda>i. 0) [0x68, 0x69]) = Wild_pointer 0"
proof -
  have h1: "length [0x68, 0x69 :: byte] \<le> BUF_LEN"
    by (simp add: BUF_LEN_def)
  have h2: "wf_simple \<lparr>safe_at = 0x401136, win_at = 0x401156, echo_safe_at = 0x402004\<rparr>
     [(0x7FFE0010, ''./victim''), (0x7FFE0021, ''id'')]"
    by (simp add: wf_simple_def wf_strings_def simple_strings_def)
  have h3: "wf_coro \<lparr>safe_resume_at = 0x401136, coro_win_at = 0x401156, coro_echo_safe_at = 0x402004\<rparr>
     [(0x7FFE0010, ''./victim''), (0x7FFE0021, ''id'')]"
    by (simp add: wf_coro_def wf_strings_def coro_strings_def)
  show ?thesis
    using h1 h2 h3 short_input_keeps_slot [OF h1 h2 h3, where junk = "\<lambda>i. 0" and plat = sealed
        and cplat = sealed and splat = sealed
        and simg = "\<lparr>check_password_at = 0x401156, step0_win_at = 0x401136\<rparr>"
        and sargv = "[(0x7FFE0010, ''./victim'')]"]
    by (auto simp add: Let_def simple_layout coro_layout step0_layout offsetof_buf_def READ_LEN_def
        check_password_def read_string_def deref_def argv_at_def
        split: prod.splits)
qed

section \<open>The command string\<close>

lemma load_bytes_store_middle:
  "load_bytes (off + length as) (length bs) (store_bytes off (as @ bs @ cs) m) = bs"
  by (rule nth_equalityI) (simp_all add: load_bytes_def store_bytes_def nth_append)

lemma payload_slot_and_cmd:
  "load_ptr 32 (store_bytes 0 (replicate 32 b @ le_bytes p @ le_bytes q) m) = p"
  "load_ptr 40 (store_bytes 0 (replicate 32 b @ le_bytes p @ le_bytes q) m) = q"
  using load_bytes_store_middle [of 0 "replicate 32 b" "le_bytes p" "le_bytes q" m]
    load_bytes_store_append [of 0 "replicate 32 b @ le_bytes p" "le_bytes q" m]
  by (simp_all add: load_ptr_def PTR_SIZE_def length_le_bytes le_word_le_bytes)

text \<open>
  Why the bound: in the coroutine victim a payload of 48 bytes also replaces the
  command pointer.  Here it makes \<^verbatim>\<open>win\<close> run the program's own name instead of
  the argument.
\<close>

lemma coro_payload_replaces_command:
  "\<exists>s. coro_main sealed
          \<lparr>safe_resume_at = 0x401136, coro_win_at = 0x401156, coro_echo_safe_at = 0x402004\<rparr>
          [(0x7FFE0010, ''./victim''), (0x7FFE0021, ''id'')] (\<lambda>i. 0)
          (replicate 32 0x41 @ le_bytes 0x401156 @ le_bytes 0x7FFE0010) = Some (s, Exit 0) \<and>
        from_read (trace s) = [Fread 0 200 48, Call_slot 0x401156, System ''./victim'', Free]"
proof -
  let ?img = "\<lparr>safe_resume_at = 0x401136, coro_win_at = 0x401156, coro_echo_safe_at = 0x402004\<rparr>"
  let ?argv = "[(0x7FFE0010 :: addr, ''./victim''), (0x7FFE0021, ''id'')]"
  let ?inp = "replicate 32 (0x41 :: byte) @ le_bytes 0x401156 @ le_bytes 0x7FFE0010"
  obtain s5 where s5: "coro_setup ?img ?argv \<lparr>mem = (\<lambda>i. 0), reach = 0, stdin = ?inp, trace = [],
              point = (\<lambda>c. Not_created), continuation = (\<lambda>c. None)\<rparr> = Some s5"
    and flds: "mem s5 = store_bytes 0 (take 200 ?inp)
         (store_ptr 40 (if 1 < length ?argv then fst (?argv ! 1) else coro_echo_safe_at ?img)
            (store_ptr 32 (safe_resume_at ?img) (\<lambda>i. 0)))"
     "reach s5 = max 48 (min 200 (length ?inp))"
     "trace s5 = [Frame_store 32 (safe_resume_at ?img),
          Frame_store 40 (if 1 < length ?argv then fst (?argv ! 1) else coro_echo_safe_at ?img),
          Stdout (win_banner (coro_win_at ?img) @ ''\<newline>''), Fflush,
          Stdout ''c3(): enter input\<newline>'', Fflush,
          Fread 0 200 (min 200 (length ?inp))]"
    using coro_setup_state [of ?img ?argv "\<lambda>i. 0" ?inp] by blast
  show ?thesis
    unfolding coro_main_call [OF s5]
    by (simp add: coro_call_slot_def Let_def coro_layout flds length_le_bytes payload_slot_and_cmd
        coro_resolve_def coro_strings_def deref_def read_string_def win_def emit_def destroy_def
        from_read_def)
qed

text \<open>
  Claim C3, as amended.  In the simple and in the coroutine victim, when the
  input is at most 40 bytes, so that it reaches no further than the slot, the
  code that the call through the slot invokes, whatever address the slot holds,
  is passed a pointer that is not null, to the first command-line argument
  when there is one and to the string \<^verbatim>\<open>echo SAFE\<close> when there is none: for an
  address of no function of the victim this is the argument the code of the
  platform at that address is called with, \<^verbatim>\<open>safe\<close> (\<^verbatim>\<open>safe_resume\<close>) prints that
  string, and \<^verbatim>\<open>win\<close> hands it to \<^verbatim>\<open>system\<close>.  The step-0 variant has no default:
  its first argument, when given, is the password that the code invoked through
  the slot is passed, and that \<^verbatim>\<open>check_password\<close> checks.
\<close>

theorem command_string_reaches_callee:
  assumes "length inp \<le> offsetof_fn + PTR_SIZE"
    and "wf_simple img argv" and "wf_coro cimg cargv"
    and "wf_step0 simg sargv" and "1 < length sargv"
  shows
   "(let p = (if 1 < length argv then fst (argv ! 1) else echo_safe_at img);
         c = (if 1 < length argv then snd (argv ! 1) else ''echo SAFE'');
         s = simple_setup img \<lparr>mem = junk, reach = 0, stdin = inp, trace = []\<rparr>;
         fn = load_ptr offsetof_fn (mem s);
         s' = emit (Call_slot fn) s
     in p \<noteq> 0 \<and> read_string plat (simple_strings img argv) p = Some c \<and>
        simple_main plat img argv junk inp =
          (case simple_resolve img fn of
             None \<Rightarrow>
               (case continue_with (elsewhere plat fn p) s' of
                  (t, Some crash) \<Rightarrow> (t, crash)
                | (t, None) \<Rightarrow> main_return plat sizeof_Frame t)
           | Some Safe \<Rightarrow> (printf (''safe path: '' @ c @ ''\<newline>'') s', Exit 0)
           | Some Win \<Rightarrow> (emit (System c) s', Exit 0))) \<and>
    (let p = (if 1 < length cargv then fst (cargv ! 1) else coro_echo_safe_at cimg);
         c = (if 1 < length cargv then snd (cargv ! 1) else ''echo SAFE'')
     in p \<noteq> 0 \<and> read_string cplat (coro_strings cimg cargv) p = Some c \<and>
        (\<exists>s. coro_setup cimg cargv \<lparr>mem = junk, reach = 0, stdin = inp, trace = [],
                 point = (\<lambda>c. Not_created), continuation = (\<lambda>c. None)\<rparr> = Some s \<and>
           mem s = store_bytes 0 inp (store_ptr 40 p (store_ptr 32 (safe_resume_at cimg) junk)) \<and>
           trace s = [Frame_store 32 (safe_resume_at cimg), Frame_store 40 p,
                      Stdout (win_banner (coro_win_at cimg) @ ''\<newline>''), Fflush,
                      Stdout ''c3(): enter input\<newline>'', Fflush, Fread 0 200 (length inp)] \<and>
           load_ptr offsetof_cmd (mem s) = p \<and>
           coro_main cplat cimg cargv junk inp =
             Some (let fn = load_ptr offsetof_resume (mem s);
                       s' = emit (Call_slot fn) s
                   in case coro_resolve cimg fn of
                        None \<Rightarrow>
                          (case continue_with (elsewhere cplat fn p) s' of
                             (t, Some crash) \<Rightarrow> (t, crash)
                           | (t, None) \<Rightarrow> (destroy C1 (emit Free t), Exit 0))
                      | Some Safe_resume \<Rightarrow>
                          (destroy C1 (emit Free (cout_endl (''safe resume: '' @ c) s')), Exit 0)
                      | Some Coro_win \<Rightarrow>
                          (destroy C1 (emit Free (emit (System c) s')), Exit 0)))) \<and>
    (let p = fst (sargv ! 1);
         c = snd (sargv ! 1);
         s = step0_setup simg \<lparr>mem = junk, reach = 0, stdin = inp, trace = []\<rparr>;
         fn = load_ptr offsetof_auth (mem s);
         s' = emit (Call_slot fn) s
     in argv_at sargv 1 = Some p \<and> read_string splat sargv p = Some c \<and>
        step0_main splat simg sargv junk inp =
          (case step0_resolve simg fn of
             None \<Rightarrow>
               (case continue_with (elsewhere splat fn p) s' of
                  (t, Some crash) \<Rightarrow> (t, crash)
                | (t, None) \<Rightarrow> main_return splat sizeof_step0_Frame t)
           | Some Check_password \<Rightarrow> (check_password_body c s', Exit 0)
           | Some Step0_win \<Rightarrow> (step0_win s', Exit 0)))"
proof -
  have l40: "length inp \<le> 40"
    using assms(1) by (simp add: simple_layout PTR_SIZE_def)
  let ?p = "if 1 < length argv then fst (argv ! 1) else echo_safe_at img"
  let ?c = "if 1 < length argv then snd (argv ! 1) else ''echo SAFE''"
  have str: "deref (simple_strings img argv) ?p = Some ?c"
    using deref_simple_argv1 [OF assms(2)] deref_simple_literal [OF assms(2)] by simp
  have simple: "let p = ?p; c = ?c;
         s = simple_setup img \<lparr>mem = junk, reach = 0, stdin = inp, trace = []\<rparr>;
         fn = load_ptr offsetof_fn (mem s);
         s' = emit (Call_slot fn) s
     in p \<noteq> 0 \<and> read_string plat (simple_strings img argv) p = Some c \<and>
        simple_main plat img argv junk inp =
          (case simple_resolve img fn of
             None \<Rightarrow>
               (case continue_with (elsewhere plat fn p) s' of
                  (t, Some crash) \<Rightarrow> (t, crash)
                | (t, None) \<Rightarrow> main_return plat sizeof_Frame t)
           | Some Safe \<Rightarrow> (printf (''safe path: '' @ c @ ''\<newline>'') s', Exit 0)
           | Some Win \<Rightarrow> (emit (System c) s', Exit 0))"
    unfolding Let_def
    using deref_not_null [OF str] read_string_known [OF str, of plat]
      simple_medium [OF l40 assms(2), of plat junk, unfolded Let_def]
    by blast
  let ?cp = "if 1 < length cargv then fst (cargv ! 1) else coro_echo_safe_at cimg"
  let ?cc = "if 1 < length cargv then snd (cargv ! 1) else ''echo SAFE''"
  have cstr: "deref (coro_strings cimg cargv) ?cp = Some ?cc"
    using deref_coro_argv1 [OF assms(3)] deref_coro_literal [OF assms(3)] by simp
  have coro: "let p = ?cp; c = ?cc
     in p \<noteq> 0 \<and> read_string cplat (coro_strings cimg cargv) p = Some c \<and>
        (\<exists>s. coro_setup cimg cargv \<lparr>mem = junk, reach = 0, stdin = inp, trace = [],
                 point = (\<lambda>c. Not_created), continuation = (\<lambda>c. None)\<rparr> = Some s \<and>
           mem s = store_bytes 0 inp (store_ptr 40 p (store_ptr 32 (safe_resume_at cimg) junk)) \<and>
           trace s = [Frame_store 32 (safe_resume_at cimg), Frame_store 40 p,
                      Stdout (win_banner (coro_win_at cimg) @ ''\<newline>''), Fflush,
                      Stdout ''c3(): enter input\<newline>'', Fflush, Fread 0 200 (length inp)] \<and>
           load_ptr offsetof_cmd (mem s) = p \<and>
           coro_main cplat cimg cargv junk inp =
             Some (let fn = load_ptr offsetof_resume (mem s);
                       s' = emit (Call_slot fn) s
                   in case coro_resolve cimg fn of
                        None \<Rightarrow>
                          (case continue_with (elsewhere cplat fn p) s' of
                             (t, Some crash) \<Rightarrow> (t, crash)
                           | (t, None) \<Rightarrow> (destroy C1 (emit Free t), Exit 0))
                      | Some Safe_resume \<Rightarrow>
                          (destroy C1 (emit Free (cout_endl (''safe resume: '' @ c) s')), Exit 0)
                      | Some Coro_win \<Rightarrow>
                          (destroy C1 (emit Free (emit (System c) s')), Exit 0)))"
    unfolding Let_def
    using deref_not_null [OF cstr] read_string_known [OF cstr, of cplat]
      coro_medium [OF l40 assms(3), of junk cplat, unfolded Let_def]
    by blast
  have sstr: "deref sargv (fst (sargv ! 1)) = Some (snd (sargv ! 1))"
    by (rule deref_step0_argv1 [OF assms(4,5)])
  have arg: "argv_at sargv 1 = Some (fst (sargv ! 1))"
    using assms(5) by (simp add: argv_at_def)
  have step0: "let p = fst (sargv ! 1);
         c = snd (sargv ! 1);
         s = step0_setup simg \<lparr>mem = junk, reach = 0, stdin = inp, trace = []\<rparr>;
         fn = load_ptr offsetof_auth (mem s);
         s' = emit (Call_slot fn) s
     in argv_at sargv 1 = Some p \<and> read_string splat sargv p = Some c \<and>
        step0_main splat simg sargv junk inp =
          (case step0_resolve simg fn of
             None \<Rightarrow>
               (case continue_with (elsewhere splat fn p) s' of
                  (t, Some crash) \<Rightarrow> (t, crash)
                | (t, None) \<Rightarrow> main_return splat sizeof_step0_Frame t)
           | Some Check_password \<Rightarrow> (check_password_body c s', Exit 0)
           | Some Step0_win \<Rightarrow> (step0_win s', Exit 0))"
    unfolding Let_def
    using arg read_string_known [OF sstr, of splat]
      step0_medium [OF l40 assms(4,5), of splat junk, unfolded Let_def]
    by blast
  from simple coro step0 show ?thesis by blast
qed

theorem command_string_reaches_callee_witness:
  "length (replicate 32 (0x41 :: byte) @ le_bytes 0x401040) \<le> offsetof_fn + PTR_SIZE \<and>
   wf_simple \<lparr>safe_at = 0x401136, win_at = 0x401156, echo_safe_at = 0x402004\<rparr>
     [(0x7FFE0010, ''./victim''), (0x7FFE0021, ''echo PWNED'')] \<and>
   wf_coro \<lparr>safe_resume_at = 0x401136, coro_win_at = 0x401156, coro_echo_safe_at = 0x402004\<rparr>
     [(0x7FFE0010, ''./victim'')] \<and>
   wf_step0 \<lparr>check_password_at = 0x401156, step0_win_at = 0x401136\<rparr>
     [(0x7FFE0010, ''./victim''), (0x7FFE0021, ''mypassword'')] \<and>
   (case simple_main
           (sealed\<lparr>elsewhere := (\<lambda>a p s.
               if a = 0x401040
               then case deref [(0x7FFE0010, ''./victim''), (0x7FFE0021, ''echo PWNED'')] p of
                      Some c \<Rightarrow> (emit (System c) s, None)
                    | None \<Rightarrow> (s, Some (Wild_pointer p))
               else (s, Some (Wild_jump a)))\<rparr>)
           \<lparr>safe_at = 0x401136, win_at = 0x401156, echo_safe_at = 0x402004\<rparr>
           [(0x7FFE0010, ''./victim''), (0x7FFE0021, ''echo PWNED'')] (\<lambda>i. 0)
           (replicate 32 0x41 @ le_bytes 0x401040) of
      (s, out) \<Rightarrow>
        from_read (trace s) = [Fread 0 200 40, Call_slot 0x401040, System ''echo PWNED''] \<and>
        out = Exit 0) \<and>
   (\<exists>s out. coro_main sealed
       \<lparr>safe_resume_at = 0x401136, coro_win_at = 0x401156, coro_echo_safe_at = 0x402004\<rparr>
       [(0x7FFE0010, ''./victim'')] (\<lambda>i. 0) (replicate 32 0x41 @ le_bytes 0x401040)
         = Some (s, out) \<and>
      from_read (trace s) = [Fread 0 200 40, Call_slot 0x401040] \<and> out = Wild_jump 0x401040) \<and>
   (case step0_main sealed \<lparr>check_password_at = 0x401156, step0_win_at = 0x401136\<rparr>
       [(0x7FFE0010, ''./victim''), (0x7FFE0021, ''mypassword'')] (\<lambda>i. 0)
       (replicate 32 0x41 @ le_bytes 0x401040) of
      (s, out) \<Rightarrow>
        from_read (trace s) = [Fread 0 200 40, Call_slot 0x401040] \<and> out = Wild_jump 0x401040)"
proof -
  have h1: "length (replicate 32 (0x41 :: byte) @ le_bytes 0x401040) \<le> offsetof_fn + PTR_SIZE"
    by (simp add: simple_layout PTR_SIZE_def length_le_bytes)
  have h2: "wf_simple \<lparr>safe_at = 0x401136, win_at = 0x401156, echo_safe_at = 0x402004\<rparr>
     [(0x7FFE0010, ''./victim''), (0x7FFE0021, ''echo PWNED'')]"
    by (simp add: wf_simple_def wf_strings_def simple_strings_def)
  have h3: "wf_coro \<lparr>safe_resume_at = 0x401136, coro_win_at = 0x401156, coro_echo_safe_at = 0x402004\<rparr>
     [(0x7FFE0010, ''./victim'')]"
    by (simp add: wf_coro_def wf_strings_def coro_strings_def)
  have h4: "wf_step0 \<lparr>check_password_at = 0x401156, step0_win_at = 0x401136\<rparr>
     [(0x7FFE0010, ''./victim''), (0x7FFE0021, ''mypassword'')]"
    by (simp add: wf_step0_def wf_strings_def)
  have h5: "1 < length [(0x7FFE0010 :: addr, ''./victim''), (0x7FFE0021, ''mypassword'')]"
    by simp
  show ?thesis
    using h1 h2 h3 h4 command_string_reaches_callee [OF h1 h2 h3 h4 h5, where junk = "\<lambda>i. 0"
        and cplat = sealed and splat = sealed
        and plat = "sealed\<lparr>elsewhere := (\<lambda>a p s.
               if a = 0x401040
               then case deref [(0x7FFE0010, ''./victim''), (0x7FFE0021, ''echo PWNED'')] p of
                      Some c \<Rightarrow> (emit (System c) s, None)
                    | None \<Rightarrow> (s, Some (Wild_pointer p))
               else (s, Some (Wild_jump a)))\<rparr>"]
    by (auto simp add: Let_def simple_layout coro_layout step0_layout offsetof_buf_def READ_LEN_def
        simple_setup_state step0_setup_state payload_slot simple_resolve_def coro_resolve_def
        step0_resolve_def length_le_bytes continue_with_def sealed_def emit_def deref_def
        main_return_def from_read_def)
qed

text \<open>
  The step-0 variant run without an argument: \<^verbatim>\<open>argv[1]\<close> is the null pointer
  that ends \<^verbatim>\<open>argv\<close>, it is what the slot is called with, and \<^verbatim>\<open>check_password\<close>
  reads a string through it.  No placeholder stands in for the argument.
\<close>

theorem step0_omitted_argument_counterexample:
  "length [(0x7FFE0010 :: addr, ''./step0'')] = 1 \<and>
   wf_step0 \<lparr>check_password_at = 0x401156, step0_win_at = 0x401136\<rparr> [(0x7FFE0010, ''./step0'')] \<and>
   argv_at [(0x7FFE0010, ''./step0'')] 1 = Some 0 \<and>
   read_string sealed [(0x7FFE0010, ''./step0'')] 0 = None \<and>
   step0_call_slot sealed \<lparr>check_password_at = 0x401156, step0_win_at = 0x401136\<rparr>
       [(0x7FFE0010, ''./step0'')]
       (step0_setup \<lparr>check_password_at = 0x401156, step0_win_at = 0x401136\<rparr>
          \<lparr>mem = (\<lambda>i. 0), reach = 0, stdin = [], trace = []\<rparr>) =
     check_password sealed [(0x7FFE0010, ''./step0'')] 0
       (emit (Call_slot 0x401156)
          (step0_setup \<lparr>check_password_at = 0x401156, step0_win_at = 0x401136\<rparr>
             \<lparr>mem = (\<lambda>i. 0), reach = 0, stdin = [], trace = []\<rparr>)) \<and>
   snd (step0_main sealed \<lparr>check_password_at = 0x401156, step0_win_at = 0x401136\<rparr>
          [(0x7FFE0010, ''./step0'')] (\<lambda>i. 0) []) = Wild_pointer 0"
  unfolding step0_main_call step0_setup_state
  by (simp add: wf_step0_def wf_strings_def argv_at_def deref_def read_string_def
      step0_call_slot_def Let_def step0_layout slot_survives step0_resolve_def check_password_def
      emit_def)

section \<open>Lifecycle\<close>



lemma step0_setup_fields:
  "mem (step0_setup img s0) =
     store_bytes 0 (take 200 (stdin s0)) (store_ptr 32 (check_password_at img) (mem s0))"
  "stdin (step0_setup img s0) = drop 200 (stdin s0)"
  "trace (step0_setup img s0) = trace s0 @ [Frame_store 32 (check_password_at img),
      Stdout (win_banner (step0_win_at img) @ ''\<newline>''),
      Fread 0 200 (length (take 200 (stdin s0)))]"
  by (simp_all add: step0_setup_def Let_def machine_ops step0_layout offsetof_buf_def READ_LEN_def
      length_le_bytes store_ptr_def)

lemma prefix_filter: "prefix xs ys \<Longrightarrow> prefix (filter P xs) (filter P ys)"
  by (auto simp add: prefix_def)







section \<open>The read\<close>

lemma simple_read:
  "(let s = simple_setup img \<lparr>mem = junk, reach = 0, stdin = inp, trace = []\<rparr>;
        run = simple_main plat img argv junk inp
    in prefix (trace s) (trace (fst run)) \<and>
       filter is_fread (trace s) = [Fread offsetof_buf READ_LEN (min READ_LEN (length inp))] \<and>
       load_bytes offsetof_buf (min READ_LEN (length inp)) (mem s) = take READ_LEN inp \<and>
       stdin s = drop READ_LEN inp \<and>
       (length inp \<le> sizeof_Frame \<and> simple_resolve img (load_ptr offsetof_fn (mem s)) \<noteq> None \<longrightarrow>
          filter is_fread (trace (fst run)) =
            [Fread offsetof_buf READ_LEN (min READ_LEN (length inp))] \<and>
          load_bytes offsetof_buf (min READ_LEN (length inp)) (mem (fst run)) = take READ_LEN inp \<and>
          stdin (fst run) = drop READ_LEN inp))"
proof -
  define s where "s = simple_setup img \<lparr>mem = junk, reach = 0, stdin = inp, trace = []\<rparr>"
  have a: "prefix (trace s) (trace (fst (simple_main plat img argv junk inp)))"
    using simple_main_prefix [of img junk inp plat argv]
    by (auto simp add: s_def prefix_def)
  have b: "filter is_fread (trace s) = [Fread offsetof_buf READ_LEN (min READ_LEN (length inp))]"
    by (simp add: s_def simple_setup_state offsetof_buf_def READ_LEN_def)
  have c: "load_bytes offsetof_buf (min READ_LEN (length inp)) (mem s) = take READ_LEN inp"
    using load_bytes_store_same [of 0 "take 200 inp"]
    by (simp add: s_def simple_setup_state offsetof_buf_def READ_LEN_def min.commute)
  have d: "stdin s = drop READ_LEN inp"
    by (simp add: s_def simple_setup_state READ_LEN_def)
  have e: "length inp \<le> sizeof_Frame \<and> simple_resolve img (load_ptr offsetof_fn (mem s)) \<noteq> None \<longrightarrow>
          filter is_fread (trace (fst (simple_main plat img argv junk inp))) =
            [Fread offsetof_buf READ_LEN (min READ_LEN (length inp))] \<and>
          load_bytes offsetof_buf (min READ_LEN (length inp))
            (mem (fst (simple_main plat img argv junk inp))) = take READ_LEN inp \<and>
          stdin (fst (simple_main plat img argv junk inp)) = drop READ_LEN inp"
  proof
    assume h: "length inp \<le> sizeof_Frame \<and> simple_resolve img (load_ptr offsetof_fn (mem s)) \<noteq> None"
    then obtain f where f: "simple_resolve img (load_ptr offsetof_fn (mem s)) = Some f"
      by auto
    have "fst (simple_main plat img argv junk inp) =
           fst (simple_call_slot plat img (simple_strings img argv)
             (if 1 < length argv then fst (argv ! 1) else echo_safe_at img) s)"
      unfolding s_def using f h by (intro simple_main_known [where f = f]) (simp_all add: s_def)
    then show "filter is_fread (trace (fst (simple_main plat img argv junk inp))) =
            [Fread offsetof_buf READ_LEN (min READ_LEN (length inp))] \<and>
          load_bytes offsetof_buf (min READ_LEN (length inp))
            (mem (fst (simple_main plat img argv junk inp))) = take READ_LEN inp \<and>
          stdin (fst (simple_main plat img argv junk inp)) = drop READ_LEN inp"
      using b c d by (simp add: simple_call_slot_known [OF f])
  qed
  show ?thesis
    unfolding Let_def s_def [symmetric]
    using a b c d e by blast
qed

lemma step0_read:
  "(let s = step0_setup img \<lparr>mem = junk, reach = 0, stdin = inp, trace = []\<rparr>;
        run = step0_main plat img argv junk inp
    in prefix (trace s) (trace (fst run)) \<and>
       filter is_fread (trace s) = [Fread offsetof_buf READ_LEN (min READ_LEN (length inp))] \<and>
       load_bytes offsetof_buf (min READ_LEN (length inp)) (mem s) = take READ_LEN inp \<and>
       stdin s = drop READ_LEN inp \<and>
       (length inp \<le> sizeof_step0_Frame \<and>
        step0_resolve img (load_ptr offsetof_auth (mem s)) \<noteq> None \<longrightarrow>
          filter is_fread (trace (fst run)) =
            [Fread offsetof_buf READ_LEN (min READ_LEN (length inp))] \<and>
          load_bytes offsetof_buf (min READ_LEN (length inp)) (mem (fst run)) = take READ_LEN inp \<and>
          stdin (fst run) = drop READ_LEN inp))"
proof -
  define s where "s = step0_setup img \<lparr>mem = junk, reach = 0, stdin = inp, trace = []\<rparr>"
  have a: "prefix (trace s) (trace (fst (step0_main plat img argv junk inp)))"
    using step0_main_prefix [of img junk inp plat argv]
    by (auto simp add: s_def prefix_def)
  have b: "filter is_fread (trace s) = [Fread offsetof_buf READ_LEN (min READ_LEN (length inp))]"
    by (simp add: s_def step0_setup_state offsetof_buf_def READ_LEN_def)
  have c: "load_bytes offsetof_buf (min READ_LEN (length inp)) (mem s) = take READ_LEN inp"
    using load_bytes_store_same [of 0 "take 200 inp"]
    by (simp add: s_def step0_setup_state offsetof_buf_def READ_LEN_def min.commute)
  have d: "stdin s = drop READ_LEN inp"
    by (simp add: s_def step0_setup_state READ_LEN_def)
  have e: "length inp \<le> sizeof_step0_Frame \<and>
        step0_resolve img (load_ptr offsetof_auth (mem s)) \<noteq> None \<longrightarrow>
          filter is_fread (trace (fst (step0_main plat img argv junk inp))) =
            [Fread offsetof_buf READ_LEN (min READ_LEN (length inp))] \<and>
          load_bytes offsetof_buf (min READ_LEN (length inp))
            (mem (fst (step0_main plat img argv junk inp))) = take READ_LEN inp \<and>
          stdin (fst (step0_main plat img argv junk inp)) = drop READ_LEN inp"
  proof
    assume h: "length inp \<le> sizeof_step0_Frame \<and>
        step0_resolve img (load_ptr offsetof_auth (mem s)) \<noteq> None"
    then obtain f where f: "step0_resolve img (load_ptr offsetof_auth (mem s)) = Some f"
      by auto
    have "fst (step0_main plat img argv junk inp) = fst (step0_call_slot plat img argv s)"
      unfolding s_def using f h by (intro step0_main_known [where f = f]) (simp_all add: s_def)
    then show "filter is_fread (trace (fst (step0_main plat img argv junk inp))) =
            [Fread offsetof_buf READ_LEN (min READ_LEN (length inp))] \<and>
          load_bytes offsetof_buf (min READ_LEN (length inp))
            (mem (fst (step0_main plat img argv junk inp))) = take READ_LEN inp \<and>
          stdin (fst (step0_main plat img argv junk inp)) = drop READ_LEN inp"
      using b c d by (simp add: step0_call_slot_known [OF f])
  qed
  show ?thesis
    unfolding Let_def s_def [symmetric]
    using a b c d e by blast
qed

lemma coro_read:
  "\<exists>s t out.
     coro_setup img argv \<lparr>mem = junk, reach = 0, stdin = inp, trace = [],
        point = (\<lambda>c. Not_created), continuation = (\<lambda>c. None)\<rparr> = Some s \<and>
     coro_main plat img argv junk inp = Some (t, out) \<and>
     prefix (trace s) (trace t) \<and>
     filter is_fread (trace s) = [Fread offsetof_buf READ_LEN (min READ_LEN (length inp))] \<and>
     load_bytes offsetof_buf (min READ_LEN (length inp)) (mem s) = take READ_LEN inp \<and>
     stdin s = drop READ_LEN inp \<and>
     (length inp \<le> sizeof_coro_Frame \<and>
      coro_resolve img (load_ptr offsetof_resume (mem s)) \<noteq> None \<longrightarrow>
        filter is_fread (trace t) = [Fread offsetof_buf READ_LEN (min READ_LEN (length inp))] \<and>
        load_bytes offsetof_buf (min READ_LEN (length inp)) (mem t) = take READ_LEN inp \<and>
        stdin t = drop READ_LEN inp)"
proof -
  let ?p = "if 1 < length argv then fst (argv ! 1) else coro_echo_safe_at img"
  obtain s t out where s: "coro_setup img argv \<lparr>mem = junk, reach = 0, stdin = inp, trace = [],
        point = (\<lambda>c. Not_created), continuation = (\<lambda>c. None)\<rparr> = Some s"
    and main: "coro_main plat img argv junk inp = Some (t, out)"
    and m: "mem s = store_bytes 0 (take 200 inp) (store_ptr 40 ?p (store_ptr 32 (safe_resume_at img) junk))"
    and si: "stdin s = drop 200 inp"
    and tr: "trace s = [Frame_store 32 (safe_resume_at img), Frame_store 40 ?p,
          Stdout (win_banner (coro_win_at img) @ ''\<newline>''), Fflush,
          Stdout ''c3(): enter input\<newline>'', Fflush,
          Fread 0 200 (min 200 (length inp))]"
    and p1: "prefix (trace s) (trace t)"
    and p3: "length inp \<le> 48 \<and> coro_resolve img (load_ptr offsetof_resume (mem s)) \<noteq> None \<longrightarrow>
          mem t = mem s \<and> stdin t = stdin s \<and>
          filter touches_frame (trace t) =
            filter touches_frame (trace s) @ [Call_slot (load_ptr offsetof_resume (mem s))] \<and>
          filter is_fread (trace t) = filter is_fread (trace s)"
    using coro_main_runs [of img argv junk inp plat] by blast
  have b: "filter is_fread (trace s) = [Fread offsetof_buf READ_LEN (min READ_LEN (length inp))]"
    by (simp add: tr offsetof_buf_def READ_LEN_def)
  have c: "load_bytes offsetof_buf (min READ_LEN (length inp)) (mem s) = take READ_LEN inp"
    using load_bytes_store_same [of 0 "take 200 inp"]
    by (simp add: m offsetof_buf_def READ_LEN_def min.commute)
  have d: "stdin s = drop READ_LEN inp"
    by (simp add: si READ_LEN_def)
  have e: "length inp \<le> sizeof_coro_Frame \<and>
      coro_resolve img (load_ptr offsetof_resume (mem s)) \<noteq> None \<longrightarrow>
        filter is_fread (trace t) = [Fread offsetof_buf READ_LEN (min READ_LEN (length inp))] \<and>
        load_bytes offsetof_buf (min READ_LEN (length inp)) (mem t) = take READ_LEN inp \<and>
        stdin t = drop READ_LEN inp"
    using p3 b c d by (simp add: coro_layout)
  show ?thesis
    using s main p1 b c d e by blast
qed

text \<open>
  Claim C2.  In each of the three victims the buffer is 32 bytes with the slot
  right behind it, and the \<^verbatim>\<open>fread\<close> that \<^verbatim>\<open>main\<close> (in the coroutine victim \<^verbatim>\<open>c3\<close>)
  does on its way to the call asks for 200 bytes at the start of the buffer.
  Whatever the length of the input and whatever the platform, the run passes
  through the state after that read, in which the first 200 bytes of the input
  (all of it when it is shorter) are in memory from the start of the buffer
  on, and are consumed from standard input: nothing compares the length with
  the 32 bytes of the buffer.  When the input stayed inside the Frame and the
  call goes to one of the two functions of the victim, this read is the only
  one of the run, and the same holds of the state the run ends in.
\<close>

theorem overflow_read_unchecked:
  "READ_LEN = 200 \<and> BUF_LEN = 32 \<and>
   offsetof_fn = offsetof_buf + BUF_LEN \<and> offsetof_resume = offsetof_buf + BUF_LEN \<and>
   offsetof_auth = offsetof_buf + BUF_LEN \<and>
   (let s = simple_setup img \<lparr>mem = junk, reach = 0, stdin = inp, trace = []\<rparr>;
        run = simple_main plat img argv junk inp
    in prefix (trace s) (trace (fst run)) \<and>
       filter is_fread (trace s) = [Fread offsetof_buf READ_LEN (min READ_LEN (length inp))] \<and>
       load_bytes offsetof_buf (min READ_LEN (length inp)) (mem s) = take READ_LEN inp \<and>
       stdin s = drop READ_LEN inp \<and>
       (length inp \<le> sizeof_Frame \<and> simple_resolve img (load_ptr offsetof_fn (mem s)) \<noteq> None \<longrightarrow>
          filter is_fread (trace (fst run)) =
            [Fread offsetof_buf READ_LEN (min READ_LEN (length inp))] \<and>
          load_bytes offsetof_buf (min READ_LEN (length inp)) (mem (fst run)) = take READ_LEN inp \<and>
          stdin (fst run) = drop READ_LEN inp)) \<and>
   (\<exists>s t out.
     coro_setup cimg cargv \<lparr>mem = cjunk, reach = 0, stdin = cinp, trace = [],
        point = (\<lambda>c. Not_created), continuation = (\<lambda>c. None)\<rparr> = Some s \<and>
     coro_main cplat cimg cargv cjunk cinp = Some (t, out) \<and>
     prefix (trace s) (trace t) \<and>
     filter is_fread (trace s) = [Fread offsetof_buf READ_LEN (min READ_LEN (length cinp))] \<and>
     load_bytes offsetof_buf (min READ_LEN (length cinp)) (mem s) = take READ_LEN cinp \<and>
     stdin s = drop READ_LEN cinp \<and>
     (length cinp \<le> sizeof_coro_Frame \<and>
      coro_resolve cimg (load_ptr offsetof_resume (mem s)) \<noteq> None \<longrightarrow>
        filter is_fread (trace t) = [Fread offsetof_buf READ_LEN (min READ_LEN (length cinp))] \<and>
        load_bytes offsetof_buf (min READ_LEN (length cinp)) (mem t) = take READ_LEN cinp \<and>
        stdin t = drop READ_LEN cinp)) \<and>
   (let s = step0_setup simg \<lparr>mem = sjunk, reach = 0, stdin = sinp, trace = []\<rparr>;
        run = step0_main splat simg sargv sjunk sinp
    in prefix (trace s) (trace (fst run)) \<and>
       filter is_fread (trace s) = [Fread offsetof_buf READ_LEN (min READ_LEN (length sinp))] \<and>
       load_bytes offsetof_buf (min READ_LEN (length sinp)) (mem s) = take READ_LEN sinp \<and>
       stdin s = drop READ_LEN sinp \<and>
       (length sinp \<le> sizeof_step0_Frame \<and>
        step0_resolve simg (load_ptr offsetof_auth (mem s)) \<noteq> None \<longrightarrow>
          filter is_fread (trace (fst run)) =
            [Fread offsetof_buf READ_LEN (min READ_LEN (length sinp))] \<and>
          load_bytes offsetof_buf (min READ_LEN (length sinp)) (mem (fst run)) = take READ_LEN sinp \<and>
          stdin (fst run) = drop READ_LEN sinp))"
proof -
  have layout: "READ_LEN = 200 \<and> BUF_LEN = 32 \<and>
   offsetof_fn = offsetof_buf + BUF_LEN \<and> offsetof_resume = offsetof_buf + BUF_LEN \<and>
   offsetof_auth = offsetof_buf + BUF_LEN"
    by (simp add: READ_LEN_def BUF_LEN_def simple_layout coro_layout step0_layout offsetof_buf_def)
  show ?thesis
    by (intro conjI layout [THEN conjunct1] layout [THEN conjunct2, THEN conjunct1]
        layout [THEN conjunct2, THEN conjunct2, THEN conjunct1]
        layout [THEN conjunct2, THEN conjunct2, THEN conjunct2, THEN conjunct1]
        layout [THEN conjunct2, THEN conjunct2, THEN conjunct2, THEN conjunct2]
        simple_read coro_read step0_read)
qed

theorem overflow_read_unchecked_witness:
  "length (replicate 32 (0x41 :: byte) @ le_bytes 0x401156) \<le> sizeof_Frame \<and>
   simple_resolve \<lparr>safe_at = 0x401136, win_at = 0x401156, echo_safe_at = 0x402004\<rparr>
     (load_ptr offsetof_fn (mem (simple_setup
        \<lparr>safe_at = 0x401136, win_at = 0x401156, echo_safe_at = 0x402004\<rparr>
        \<lparr>mem = (\<lambda>i. 0), reach = 0, stdin = replicate 32 0x41 @ le_bytes 0x401156, trace = []\<rparr>)))
     \<noteq> None \<and>
   filter is_fread (trace (fst (simple_main sealed
       \<lparr>safe_at = 0x401136, win_at = 0x401156, echo_safe_at = 0x402004\<rparr>
       [(0x7FFE0010, ''./victim''), (0x7FFE0021, ''id'')] (\<lambda>i. 0)
       (replicate 32 0x41 @ le_bytes 0x401156))))
     = [Fread 0 200 40] \<and>
   load_bytes 0 40 (mem (fst (simple_main sealed
       \<lparr>safe_at = 0x401136, win_at = 0x401156, echo_safe_at = 0x402004\<rparr>
       [(0x7FFE0010, ''./victim''), (0x7FFE0021, ''id'')] (\<lambda>i. 0)
       (replicate 32 0x41 @ le_bytes 0x401156))))
     = replicate 32 0x41 @ le_bytes 0x401156 \<and>
   (\<exists>t out. coro_main sealed
       \<lparr>safe_resume_at = 0x401136, coro_win_at = 0x401156, coro_echo_safe_at = 0x402004\<rparr>
       [(0x7FFE0010, ''./victim''), (0x7FFE0021, ''id'')] (\<lambda>i. 0) [0x68, 0x69] = Some (t, out) \<and>
      filter is_fread (trace t) = [Fread 0 200 2] \<and>
      load_bytes 0 2 (mem t) = [0x68, 0x69] \<and> stdin t = []) \<and>
   filter is_fread (trace (fst (step0_main sealed
       \<lparr>check_password_at = 0x401156, step0_win_at = 0x401136\<rparr>
       [(0x7FFE0010, ''./victim''), (0x7FFE0021, ''letmein'')] (\<lambda>i. 0) [0x68, 0x69])))
     = [Fread 0 200 2] \<and>
   load_bytes 0 2 (mem (fst (step0_main sealed
       \<lparr>check_password_at = 0x401156, step0_win_at = 0x401136\<rparr>
       [(0x7FFE0010, ''./victim''), (0x7FFE0021, ''letmein'')] (\<lambda>i. 0) [0x68, 0x69])))
     = [0x68, 0x69]"
proof -
  let ?img = "\<lparr>safe_at = 0x401136, win_at = 0x401156, echo_safe_at = 0x402004\<rparr>"
  let ?cimg = "\<lparr>safe_resume_at = 0x401136, coro_win_at = 0x401156, coro_echo_safe_at = 0x402004\<rparr>"
  let ?simg = "\<lparr>check_password_at = 0x401156, step0_win_at = 0x401136\<rparr>"
  let ?argv = "[(0x7FFE0010 :: addr, ''./victim''), (0x7FFE0021, ''id'')]"
  let ?sargv = "[(0x7FFE0010 :: addr, ''./victim''), (0x7FFE0021, ''letmein'')]"
  let ?pay = "replicate 32 (0x41 :: byte) @ le_bytes 0x401156"
  note T = overflow_read_unchecked [where junk = "\<lambda>i. 0" and inp = ?pay and img = ?img
      and plat = sealed and argv = ?argv and cjunk = "\<lambda>i. 0" and cinp = "[0x68, 0x69]"
      and cimg = ?cimg and cargv = ?argv and cplat = sealed and simg = ?simg
      and sjunk = "\<lambda>i. 0" and sinp = "[0x68, 0x69]" and splat = sealed and sargv = ?sargv]
  note T5 = T [THEN conjunct2, THEN conjunct2, THEN conjunct2, THEN conjunct2, THEN conjunct2]
  have h1: "length ?pay \<le> sizeof_Frame"
    by (simp add: simple_layout length_le_bytes)
  have h2: "simple_resolve ?img (load_ptr offsetof_fn (mem (simple_setup ?img
        \<lparr>mem = (\<lambda>i. 0), reach = 0, stdin = ?pay, trace = []\<rparr>))) \<noteq> None"
    by (simp add: simple_setup_state simple_layout length_le_bytes payload_slot simple_resolve_def)
  have simple: "filter is_fread (trace (fst (simple_main sealed ?img ?argv (\<lambda>i. 0) ?pay)))
       = [Fread 0 200 40] \<and>
     load_bytes 0 40 (mem (fst (simple_main sealed ?img ?argv (\<lambda>i. 0) ?pay))) = ?pay"
    using T5 [THEN conjunct1] h1 h2
    by (simp add: Let_def offsetof_buf_def READ_LEN_def length_le_bytes)
  have coro: "\<exists>t out. coro_main sealed ?cimg ?argv (\<lambda>i. 0) [0x68, 0x69] = Some (t, out) \<and>
      filter is_fread (trace t) = [Fread 0 200 2] \<and>
      load_bytes 0 2 (mem t) = [0x68, 0x69] \<and> stdin t = []"
  proof -
    obtain s t out where main: "coro_main sealed ?cimg ?argv (\<lambda>i. 0) [0x68, 0x69] = Some (t, out)"
      and st: "coro_setup ?cimg ?argv \<lparr>mem = (\<lambda>i. 0), reach = 0, stdin = [0x68, 0x69], trace = [],
                   point = (\<lambda>c. Not_created), continuation = (\<lambda>c. None)\<rparr> = Some s"
      and e: "length [0x68, 0x69 :: byte] \<le> sizeof_coro_Frame \<and>
          coro_resolve ?cimg (load_ptr offsetof_resume (mem s)) \<noteq> None \<longrightarrow>
            filter is_fread (trace t) =
              [Fread offsetof_buf READ_LEN (min READ_LEN (length [0x68, 0x69 :: byte]))] \<and>
            load_bytes offsetof_buf (min READ_LEN (length [0x68, 0x69 :: byte])) (mem t) =
              take READ_LEN [0x68, 0x69] \<and>
            stdin t = drop READ_LEN [0x68, 0x69]"
      using T5 [THEN conjunct2, THEN conjunct1] by blast
    obtain s5 where s5: "coro_setup ?cimg ?argv \<lparr>mem = (\<lambda>i. 0), reach = 0, stdin = [0x68, 0x69],
                   trace = [], point = (\<lambda>c. Not_created), continuation = (\<lambda>c. None)\<rparr> = Some s5"
      and m5: "mem s5 = store_bytes 0 (take 200 [0x68, 0x69])
         (store_ptr 40 (if 1 < length ?argv then fst (?argv ! 1) else coro_echo_safe_at ?cimg)
            (store_ptr 32 (safe_resume_at ?cimg) (\<lambda>i. 0)))"
      using coro_setup_state [of ?cimg ?argv "\<lambda>i. 0" "[0x68, 0x69]"] by blast
    have m: "mem s = store_bytes 0 [0x68, 0x69] (store_ptr 40 0x7FFE0021 (store_ptr 32 0x401136 (\<lambda>i. 0)))"
      using st s5 m5 by simp
    have slot: "load_ptr offsetof_resume (mem s) = 0x401136"
      using slot_survives_cmd [of "[0x68, 0x69]" "0x7FFE0021" "0x401136" "\<lambda>i. 0"]
      by (simp add: m coro_layout)
    show ?thesis
      using main e slot
      by (simp add: coro_resolve_def coro_layout offsetof_buf_def READ_LEN_def numeral_2_eq_2)
  qed
  have step0: "filter is_fread (trace (fst (step0_main sealed ?simg ?sargv (\<lambda>i. 0) [0x68, 0x69])))
       = [Fread 0 200 2] \<and>
     load_bytes 0 2 (mem (fst (step0_main sealed ?simg ?sargv (\<lambda>i. 0) [0x68, 0x69]))) = [0x68, 0x69]"
    using T5 [THEN conjunct2, THEN conjunct2]
      slot_survives [of "[0x68, 0x69]" "0x401156" "\<lambda>i. 0"]
    by (simp add: Let_def step0_layout offsetof_buf_def READ_LEN_def
        step0_setup_state step0_resolve_def numeral_2_eq_2)
  show ?thesis
    using h1 h2 simple coro step0 by blast
qed

section \<open>What is printed before the read\<close>

lemma hex_digit_in: "d < 16 \<Longrightarrow> hex_digit d \<in> set ''0123456789abcdef''"
  unfolding hex_digit_def by (rule nth_mem) simp

lemma set_hex: "set (hex n) \<subseteq> set ''0123456789abcdef''"
proof (induction n rule: hex.induct)
  case (1 n)
  show ?case
  proof (cases "n < 16")
    case True
    then show ?thesis
      using hex_digit_in [of n] by (subst hex.simps) simp
  next
    case False
    then have "set (hex (n div 16)) \<subseteq> set ''0123456789abcdef''"
      using 1 by simp
    moreover have "hex_digit (n mod 16) \<in> set ''0123456789abcdef''"
      by (rule hex_digit_in) simp
    ultimately show ?thesis
      using False by (subst hex.simps) simp
  qed
qed

lemma hex_not_empty: "hex n \<noteq> []"
  by (subst hex.simps) simp

text \<open>Reading the digits back gives the number: \<open>hex\<close> prints it in base 16.\<close>

lemma digit_value_hex_digit: "d < 16 \<Longrightarrow> digit_value (hex_digit d) = d"
proof -
  assume "d < 16"
  then have "d \<in> set [0..<16]"
    by simp
  moreover have "\<forall>d \<in> set [0..<16]. digit_value (hex_digit d) = d"
    by (simp add: upt_rec digit_value_def hex_digit_def)
  ultimately show ?thesis
    by blast
qed

lemma hex_value_snoc: "hex_value (ds @ [c]) = 16 * hex_value ds + digit_value c"
  by (simp add: hex_value_def)

lemma hex_value_hex: "hex_value (hex n) = n"
proof (induction n rule: hex.induct)
  case (1 n)
  show ?case
  proof (cases "n < 16")
    case True
    then show ?thesis
      by (subst hex.simps) (simp add: hex_value_def digit_value_hex_digit)
  next
    case False
    then have "hex_value (hex (n div 16)) = n div 16"
      using 1 by simp
    moreover have "digit_value (hex_digit (n mod 16)) = n mod 16"
      by (rule digit_value_hex_digit) simp
    ultimately show ?thesis
      using False by (subst hex.simps) (simp add: hex_value_snoc)
  qed
qed

lemma newline_not_in_banner: "CHR ''\<newline>'' \<notin> set (win_banner a)"
  using set_hex [of "unat a"] by (auto simp add: win_banner_def)

lemma lines_from_line:
  "CHR ''\<newline>'' \<notin> set l \<Longrightarrow> lines_from cur (l @ CHR ''\<newline>'' # rest) = (cur @ l) # lines_from [] rest"
  by (induction l arbitrary: cur) auto

lemma lines_of_banner: "lines_of (win_banner a @ ''\<newline>'') = [win_banner a]"
  using lines_from_line [OF newline_not_in_banner, of "[]" a "[]"]
  by (simp add: lines_of_def)

lemma lines_of_banner_c3:
  "lines_of (win_banner a @ CHR ''\<newline>'' # ''c3(): enter input\<newline>'')
     = [win_banner a, ''c3(): enter input'']"
  using lines_from_line [OF newline_not_in_banner, of "[]" a "''c3(): enter input\<newline>''"]
  by (simp add: lines_of_def)

lemma after_0x_banner: "after_0x (win_banner a) = Some (hex (unat a))"
  by (simp add: win_banner_def)

lemma shows_address_banner: "shows_address a (win_banner a)"
  using set_hex [of "unat a"]
  by (simp add: shows_address_def after_0x_banner hex_not_empty hex_value_hex)

lemma not_shows_address_c3: "\<not> shows_address a ''c3(): enter input''"
  by (simp add: shows_address_def)

lemma complete_lines_newline: "complete_lines (txt @ ''\<newline>'') = txt @ ''\<newline>''"
  by (simp add: complete_lines_def)

lemma partial_line_newline: "partial_line (txt @ ''\<newline>'') = []"
  by (simp add: partial_line_def)

lemma before_read_append:
  "\<exists>e \<in> set xs. is_fread e \<Longrightarrow> before_read (xs @ ys) = before_read xs"
  unfolding before_read_def by (auto intro: takeWhile_append1)

lemma before_read_prefix:
  assumes "prefix xs ys" and "\<exists>e \<in> set xs. is_fread e"
  shows "before_read ys = before_read xs"
proof -
  from assms(1) obtain zs where "ys = xs @ zs"
    by (rule prefixE)
  then show ?thesis
    by (simp only: before_read_append [OF assms(2)])
qed

lemma simple_before_read:
  "before_read (trace (fst (simple_main plat img argv junk inp))) =
     [Frame_store offsetof_fn (safe_at img), Stdout (win_banner (win_at img) @ ''\<newline>''), Fflush]"
proof -
  let ?s = "simple_setup img \<lparr>mem = junk, reach = 0, stdin = inp, trace = []\<rparr>"
  have "prefix (trace ?s) (trace (fst (simple_main plat img argv junk inp)))"
    using simple_main_prefix [of img junk inp plat argv] by (auto simp add: prefix_def)
  moreover have "\<exists>e \<in> set (trace ?s). is_fread e"
    by (simp add: simple_setup_state)
  ultimately have "before_read (trace (fst (simple_main plat img argv junk inp)))
      = before_read (trace ?s)"
    by (rule before_read_prefix)
  then show ?thesis
    by (simp add: simple_setup_state before_read_def simple_layout)
qed

lemma step0_before_read:
  "before_read (trace (fst (step0_main plat img argv junk inp))) =
     [Frame_store offsetof_auth (check_password_at img),
      Stdout (win_banner (step0_win_at img) @ ''\<newline>'')]"
proof -
  let ?s = "step0_setup img \<lparr>mem = junk, reach = 0, stdin = inp, trace = []\<rparr>"
  have "prefix (trace ?s) (trace (fst (step0_main plat img argv junk inp)))"
    using step0_main_prefix [of img junk inp plat argv] by (auto simp add: prefix_def)
  moreover have "\<exists>e \<in> set (trace ?s). is_fread e"
    by (simp add: step0_setup_state)
  ultimately have "before_read (trace (fst (step0_main plat img argv junk inp)))
      = before_read (trace ?s)"
    by (rule before_read_prefix)
  then show ?thesis
    by (simp add: step0_setup_state before_read_def step0_layout)
qed

lemma coro_before_read:
  "\<exists>t out. coro_main plat img argv junk inp = Some (t, out) \<and>
     before_read (trace t) =
       [Frame_store offsetof_resume (safe_resume_at img),
        Frame_store offsetof_cmd (if 1 < length argv then fst (argv ! 1) else coro_echo_safe_at img),
        Stdout (win_banner (coro_win_at img) @ ''\<newline>''), Fflush,
        Stdout ''c3(): enter input\<newline>'', Fflush]"
proof -
  let ?p = "if 1 < length argv then fst (argv ! 1) else coro_echo_safe_at img"
  obtain s :: task_machine and t out
    where main: "coro_main plat img argv junk inp = Some (t, out)"
    and tr: "trace s = [Frame_store 32 (safe_resume_at img), Frame_store 40 ?p,
          Stdout (win_banner (coro_win_at img) @ ''\<newline>''), Fflush,
          Stdout ''c3(): enter input\<newline>'', Fflush,
          Fread 0 200 (min 200 (length inp))]"
    and p1: "prefix (trace s) (trace t)"
    using coro_main_runs [of img argv junk inp plat] by blast
  have "\<exists>e \<in> set (trace s). is_fread e"
    by (simp add: tr)
  with p1 have "before_read (trace t) = before_read (trace s)"
    by (rule before_read_prefix)
  then show ?thesis
    using main by (simp add: tr before_read_def coro_layout)
qed

lemma written_flushed_line:
  "written tty [] [Stdout (txt @ ''\<newline>''), Fflush] = txt @ ''\<newline>''"
  by (simp add: complete_lines_newline partial_line_newline del: append_assoc)

lemma hex_example: "win_banner 0x401136 = ''win() @ 0x401136''" "win_banner 0x401156 = ''win() @ 0x401156''"
  by (simp_all add: win_banner_def hex.simps hex_digit_def)

lemma simple_written:
  "(let out = written tty [] (before_read (trace (fst (simple_main plat img argv junk inp))))
    in out = win_banner (win_at img) @ ''\<newline>'' \<and>
       lines_of out = [win_banner (win_at img)] \<and>
       filter (shows_address (win_at img)) (lines_of out) = [win_banner (win_at img)])"
proof -
  have "written tty [] (before_read (trace (fst (simple_main plat img argv junk inp))))
      = win_banner (win_at img) @ ''\<newline>''"
    by (cases tty) (simp_all add: simple_before_read complete_lines_newline partial_line_newline)
  then show ?thesis
    by (simp add: Let_def lines_of_banner shows_address_banner)
qed

lemma coro_written:
  "\<exists>t r. coro_main plat img argv junk inp = Some (t, r) \<and>
     (let out = written tty [] (before_read (trace t))
      in out = win_banner (coro_win_at img) @ ''\<newline>'' @ ''c3(): enter input\<newline>'' \<and>
         lines_of out = [win_banner (coro_win_at img), ''c3(): enter input''] \<and>
         filter (shows_address (coro_win_at img)) (lines_of out) = [win_banner (coro_win_at img)])"
proof -
  obtain t r where main: "coro_main plat img argv junk inp = Some (t, r)"
    and br: "before_read (trace t) =
       [Frame_store offsetof_resume (safe_resume_at img),
        Frame_store offsetof_cmd (if 1 < length argv then fst (argv ! 1) else coro_echo_safe_at img),
        Stdout (win_banner (coro_win_at img) @ ''\<newline>''), Fflush,
        Stdout ''c3(): enter input\<newline>'', Fflush]"
    using coro_before_read [of plat img argv junk inp] by blast
  have w: "written tty [] (before_read (trace t))
      = win_banner (coro_win_at img) @ ''\<newline>'' @ ''c3(): enter input\<newline>''"
    by (cases tty)
      (simp_all add: br complete_lines_newline partial_line_newline complete_lines_def
        partial_line_def)
  have "let out = written tty [] (before_read (trace t))
      in out = win_banner (coro_win_at img) @ ''\<newline>'' @ ''c3(): enter input\<newline>'' \<and>
         lines_of out = [win_banner (coro_win_at img), ''c3(): enter input''] \<and>
         filter (shows_address (coro_win_at img)) (lines_of out) = [win_banner (coro_win_at img)]"
    unfolding Let_def w
    using lines_of_banner_c3 [of "coro_win_at img"]
    by (simp add: shows_address_banner not_shows_address_c3)
  with main show ?thesis by blast
qed

lemma step0_written:
  "(let es = before_read (trace (fst (step0_main plat img argv junk inp)))
    in stdout_text es = win_banner (step0_win_at img) @ ''\<newline>'' \<and>
       written tty [] es = (if tty then win_banner (step0_win_at img) @ ''\<newline>'' else []))"
  by (cases tty) (simp_all add: Let_def step0_before_read complete_lines_newline)

text \<open>
  Claim C7.  In every run on every platform, the simple and the coroutine
  victim have written the line \<^verbatim>\<open>win() @ 0x\<close> followed by the address of \<^verbatim>\<open>win\<close> in
  hexadecimal to standard output before the call of \<^verbatim>\<open>fread\<close>, whether standard
  output is a terminal or not, because they flush it; it is the first line
  written and the only one that shows the address (the simple victim writes
  nothing else before the read, the coroutine victim also the prompt of
  \<^verbatim>\<open>c3\<close>).  The step-0 variant hands the same line to standard output before the
  read but does not flush it: the line has been written before the read when
  standard output is a terminal, and nothing has been written before the read
  when it is not.  The digits are those of the address: read back as a
  hexadecimal numeral they give its value.  The last three lines evaluate the
  step-0 variant and the simple victim with standard output on a pipe.
\<close>

theorem banner_before_read:
  "(let out = written tty [] (before_read (trace (fst (simple_main plat img argv junk inp))))
    in out = win_banner (win_at img) @ ''\<newline>'' \<and>
       lines_of out = [win_banner (win_at img)] \<and>
       filter (shows_address (win_at img)) (lines_of out) = [win_banner (win_at img)]) \<and>
   (\<exists>t r. coro_main cplat cimg cargv cjunk cinp = Some (t, r) \<and>
     (let out = written tty [] (before_read (trace t))
      in out = win_banner (coro_win_at cimg) @ ''\<newline>'' @ ''c3(): enter input\<newline>'' \<and>
         lines_of out = [win_banner (coro_win_at cimg), ''c3(): enter input''] \<and>
         filter (shows_address (coro_win_at cimg)) (lines_of out) = [win_banner (coro_win_at cimg)])) \<and>
   (let es = before_read (trace (fst (step0_main splat simg sargv sjunk sinp)))
    in stdout_text es = win_banner (step0_win_at simg) @ ''\<newline>'' \<and>
       written tty [] es = (if tty then win_banner (step0_win_at simg) @ ''\<newline>'' else [])) \<and>
   (win_banner a = ''win() @ 0x'' @ hex (unat a) \<and> hex (unat a) \<noteq> [] \<and>
    set (hex (unat a)) \<subseteq> set ''0123456789abcdef'' \<and> hex_value (hex (unat a)) = unat a) \<and>
   (win_banner 0x401136 = ''win() @ 0x401136'' \<and>
    written False [] (before_read (trace (fst (step0_main sealed
        \<lparr>check_password_at = 0x401156, step0_win_at = 0x401136\<rparr>
        [(0x7FFE0010, ''./step0''), (0x7FFE0021, ''secret'')] (\<lambda>i. 0) [])))) = [] \<and>
    written False [] (before_read (trace (fst (simple_main sealed
        \<lparr>safe_at = 0x401136, win_at = 0x401156, echo_safe_at = 0x402004\<rparr>
        [(0x7FFE0010, ''./step1_overflow''), (0x7FFE0021, ''id'')] (\<lambda>i. 0) []))))
      = ''win() @ 0x401156\<newline>'')"
proof -
  have digits: "win_banner a = ''win() @ 0x'' @ hex (unat a) \<and> hex (unat a) \<noteq> [] \<and>
    set (hex (unat a)) \<subseteq> set ''0123456789abcdef'' \<and> hex_value (hex (unat a)) = unat a"
    using set_hex [of "unat a"] by (simp add: win_banner_def hex_not_empty hex_value_hex)
  have run: "win_banner 0x401136 = ''win() @ 0x401136'' \<and>
    written False [] (before_read (trace (fst (step0_main sealed
        \<lparr>check_password_at = 0x401156, step0_win_at = 0x401136\<rparr>
        [(0x7FFE0010, ''./step0''), (0x7FFE0021, ''secret'')] (\<lambda>i. 0) [])))) = [] \<and>
    written False [] (before_read (trace (fst (simple_main sealed
        \<lparr>safe_at = 0x401136, win_at = 0x401156, echo_safe_at = 0x402004\<rparr>
        [(0x7FFE0010, ''./step1_overflow''), (0x7FFE0021, ''id'')] (\<lambda>i. 0) []))))
      = ''win() @ 0x401156\<newline>''"
    by (simp add: step0_before_read simple_before_read hex_example)
  show ?thesis
    by (intro conjI simple_written coro_written step0_written digits run)
qed

section \<open>The password check\<close>

text \<open>
  Claim C10.  Called with a pointer to a string, \<^verbatim>\<open>check_password\<close> runs \<^verbatim>\<open>win\<close>,
  which prints the \<^verbatim>\<open>AUTHENTICATED...\<close> line, when the string (its characters up
  to the first NUL) is \<^verbatim>\<open>mypassword\<close>, and otherwise prints \<^verbatim>\<open>WRONG PASSWORD\<close>
  and does nothing else; the two results differ, so it runs \<^verbatim>\<open>win\<close> exactly when
  the string is \<^verbatim>\<open>mypassword\<close>.
\<close>

theorem check_password_iff:
  assumes "deref strs p = Some pass"
  shows "check_password plat strs p s =
           (if c_string pass = ''mypassword'' then step0_win s
            else printf ''WRONG PASSWORD\<newline>'' s, None) \<and>
         trace (step0_win s) = trace s @ [Stdout ''AUTHENTICATED...\<newline>''] \<and>
         trace (printf ''WRONG PASSWORD\<newline>'' s) = trace s @ [Stdout ''WRONG PASSWORD\<newline>''] \<and>
         (fst (check_password plat strs p s) = step0_win s) = (c_string pass = ''mypassword'')"
proof -
  have differ: "step0_win s \<noteq> printf ''WRONG PASSWORD\<newline>'' s"
  proof
    assume "step0_win s = printf ''WRONG PASSWORD\<newline>'' s"
    then have "trace (step0_win s) = trace (printf ''WRONG PASSWORD\<newline>'' s)"
      by simp
    then show False
      by (simp add: step0_win_def printf_def emit_def)
  qed
  then show ?thesis
    by (simp add: check_password_known [OF assms] check_password_body_eq)
      (simp add: step0_win_def printf_def emit_def)
qed

theorem check_password_iff_witness:
  "deref [(0x7FFE0021, ''mypassword''), (0x7FFE0030, ''letmein'')] 0x7FFE0021 = Some ''mypassword'' \<and>
   deref [(0x7FFE0021, ''mypassword''), (0x7FFE0030, ''letmein'')] 0x7FFE0030 = Some ''letmein'' \<and>
   trace (fst (check_password sealed
      [(0x7FFE0021, ''mypassword''), (0x7FFE0030, ''letmein'')] 0x7FFE0021
      \<lparr>mem = (\<lambda>i. 0), reach = 0, stdin = [], trace = []\<rparr>)) = [Stdout ''AUTHENTICATED...\<newline>''] \<and>
   trace (fst (check_password sealed
      [(0x7FFE0021, ''mypassword''), (0x7FFE0030, ''letmein'')] 0x7FFE0030
      \<lparr>mem = (\<lambda>i. 0), reach = 0, stdin = [], trace = []\<rparr>)) = [Stdout ''WRONG PASSWORD\<newline>'']"
proof -
  have h1: "deref [(0x7FFE0021, ''mypassword''), (0x7FFE0030, ''letmein'')] 0x7FFE0021
      = Some ''mypassword''"
    by (simp add: deref_def)
  have h2: "deref [(0x7FFE0021, ''mypassword''), (0x7FFE0030, ''letmein'')] 0x7FFE0030
      = Some ''letmein''"
    by (simp add: deref_def)
  show ?thesis
    using h1 h2
      check_password_iff [OF h1, of sealed "\<lparr>mem = (\<lambda>i. 0), reach = 0, stdin = [], trace = []\<rparr>"]
      check_password_iff [OF h2, of sealed "\<lparr>mem = (\<lambda>i. 0), reach = 0, stdin = [], trace = []\<rparr>"]
    by (simp add: c_string_def)
qed

section \<open>The real-time examples\<close>

text \<open>
  Claim C6.  \<^verbatim>\<open>rt_timer_callback_safe\<close> is marked non-blocking; a call of it
  does two relaxed atomic loads, of \<^verbatim>\<open>g_cached_rssi\<close> and of \<^verbatim>\<open>g_cached_ber\<close>, and
  nothing else: no store, no lock, no allocation, nothing of unbounded latency,
  and the state after the call is the state before it.
\<close>

theorem rt_timer_callback_safe_reads_only:
  "attribute_of Rt_timer_callback_safe = Nonblocking \<and>
   rt_timer_callback_safe s =
     ([Atomic_load G_cached_rssi Relaxed, Atomic_load G_cached_ber Relaxed], s) \<and>
   snd (rt_timer_callback_safe s) = s \<and>
   filter is_atomic_store (fst (rt_timer_callback_safe s)) = [] \<and>
   filter is_mutex_lock (fst (rt_timer_callback_safe s)) = [] \<and>
   filter is_malloc (fst (rt_timer_callback_safe s)) = [] \<and>
   filter unbounded_latency (fst (rt_timer_callback_safe s)) = []"
  by (simp add: rt_timer_callback_safe_def atomic_load_def)

text \<open>
  Claim C8.  \<^verbatim>\<open>violation\<close> and \<^verbatim>\<open>safe_realtime_fn\<close> are both marked non-blocking.
  \<^verbatim>\<open>violation\<close>, which \<^verbatim>\<open>main\<close> calls, allocates the storage of 100 floats in
  \<^verbatim>\<open>resize\<close> (and frees it when the vector goes out of scope); an allocation has
  unbounded latency.  \<^verbatim>\<open>safe_realtime_fn\<close> does nothing a checker could see: no
  allocation, no lock, no blocking call.
\<close>

theorem violation_allocates:
  "attribute_of Violation = Nonblocking \<and>
   attribute_of Safe_realtime_fn = Nonblocking \<and>
   fst real_time_main = violation \<and>
   violation = [Malloc (100 * sizeof_float), Free_heap] \<and>
   filter is_malloc violation = [Malloc 400] \<and>
   unbounded_latency (Malloc 400) \<and>
   safe_realtime_fn = [] \<and>
   filter unbounded_latency safe_realtime_fn = []"
  by (simp add: real_time_main_def violation_def vector_empty_def vector_resize_def
      vector_dtor_def sizeof_float_def safe_realtime_fn_def Let_def)

end
